theory Spec2Isabelle
  imports Main "HOL-Library.Word"
begin

section \<open>JavaScript strings\<close>

text \<open>
  A JavaScript string is a sequence of UTF-16 code units; \<open>length\<close> counts code units, as
  \<^verbatim>\<open>String.prototype.length\<close> does. \<open>js\<close> embeds an ASCII literal.
\<close>

type_synonym jsstring = "16 word list"

definition js :: "string \<Rightarrow> jsstring" where
  "js s = map of_char s"

text \<open>Truthiness of a value of type \<^verbatim>\<open>string | undefined\<close>, and the operator \<^verbatim>\<open>a || b\<close>.\<close>

definition truthy :: "jsstring option \<Rightarrow> bool" where
  "truthy v = (case v of None \<Rightarrow> False | Some s \<Rightarrow> s \<noteq> [])"

definition js_or :: "jsstring option \<Rightarrow> jsstring option \<Rightarrow> jsstring option" where
  "js_or a b = (if truthy a then a else b)"

text \<open>\<^verbatim>\<open>s.indexOf(pat)\<close> on strings: the first position at which \<open>pat\<close> starts.\<close>

fun indexOfStr :: "jsstring \<Rightarrow> jsstring \<Rightarrow> nat option" where
  "indexOfStr pat [] = (if pat = [] then Some 0 else None)"
| "indexOfStr pat (x # xs) =
     (if take (length pat) (x # xs) = pat then Some 0
      else map_option Suc (indexOfStr pat xs))"

definition js_includes :: "jsstring \<Rightarrow> jsstring \<Rightarrow> bool" where
  "js_includes s pat = (indexOfStr pat s \<noteq> None)"

text \<open>
  \<^verbatim>\<open>s.replace(pat, rep)\<close> with a string pattern replaces the first occurrence only, and
  expands the dollar patterns of the replacement text (ECMAScript GetSubstitution; with
  a string pattern there are no captures, so \<^verbatim>\<open>$1\<close> and \<^verbatim>\<open>$<\<close> stay literal).
\<close>

fun getSubstitution :: "jsstring \<Rightarrow> jsstring \<Rightarrow> jsstring \<Rightarrow> jsstring \<Rightarrow> jsstring" where
  "getSubstitution matched before after [] = []"
| "getSubstitution matched before after [c] = [c]"
| "getSubstitution matched before after (c # d # r) =
     (if c \<noteq> 0x24 then c # getSubstitution matched before after (d # r)
      else if d = 0x24 then 0x24 # getSubstitution matched before after r
      else if d = 0x26 then matched @ getSubstitution matched before after r
      else if d = 0x60 then before @ getSubstitution matched before after r
      else if d = 0x27 then after @ getSubstitution matched before after r
      else c # getSubstitution matched before after (d # r))"

definition js_replace :: "jsstring \<Rightarrow> jsstring \<Rightarrow> jsstring \<Rightarrow> jsstring" where
  "js_replace s pat rep =
     (case indexOfStr pat s of
        None \<Rightarrow> s
      | Some i \<Rightarrow>
          take i s
          @ getSubstitution pat (take i s) (drop (i + length pat) s) rep
          @ drop (i + length pat) s)"

text \<open>\<^verbatim>\<open>s.split(c)\<close> for a one-unit separator: never empty, \<^verbatim>\<open>"".split("/")\<close> is \<^verbatim>\<open>[""]\<close>.\<close>

fun js_split :: "16 word \<Rightarrow> jsstring \<Rightarrow> jsstring list" where
  "js_split c [] = [[]]"
| "js_split c (x # xs) =
     (if x = c then [] # js_split c xs
      else (x # hd (js_split c xs)) # tl (js_split c xs))"

text \<open>\<^verbatim>\<open>s.split(sep)[0]\<close>: the text before the first occurrence of \<open>sep\<close>, or all of \<open>s\<close>.\<close>

definition split_head :: "jsstring \<Rightarrow> jsstring \<Rightarrow> jsstring" where
  "split_head sep s = (case indexOfStr sep s of None \<Rightarrow> s | Some i \<Rightarrow> take i s)"

text \<open>\<^verbatim>\<open>parts.indexOf(x)\<close> on an array: the first index holding \<open>x\<close>.\<close>

fun indexOf :: "'a list \<Rightarrow> 'a \<Rightarrow> nat option" where
  "indexOf [] y = None"
| "indexOf (x # xs) y = (if x = y then Some 0 else map_option Suc (indexOf xs y))"

text \<open>
  \<^verbatim>\<open>toLowerCase\<close> on a host name. The host of a parsed URL is ASCII (the URL parser
  percent-encodes or punycodes everything else), so only \<^verbatim>\<open>A\<close> to \<^verbatim>\<open>Z\<close> change.
\<close>

definition toLowerCase :: "jsstring \<Rightarrow> jsstring" where
  "toLowerCase s = map (\<lambda>c. if 0x41 \<le> c \<and> c \<le> 0x5A then c + 0x20 else c) s"


section \<open>Configuration (config.ts)\<close>

definition DEFAULT_TEMPLATE :: jsstring where
  "DEFAULT_TEMPLATE =
     js ''This post is verified by @'' @ js ''{suremark_username} using SureMark Digital. '' @ [0x0A]
     @ js ''Check the SureMark dashboard for more recent posts: {dashboard_url}''"

text \<open>
  The own properties of \<^verbatim>\<open>MESSAGE_TEMPLATES.PLATFORM_SPECIFIC\<close>, each under its own name,
  and the object itself, in source order. The leading emoji of four templates are astral
  characters: a surrogate pair each. Every template literal is written in pieces, joined
  by \<open>@\<close>: at its line break and after its at-sign.
\<close>

definition PLATFORM_SPECIFIC_twitter :: jsstring where
  "PLATFORM_SPECIFIC_twitter =
     js ''This post is verified by @'' @ js ''{suremark_username} using SureMark Digital. ''
     @ [0x0A] @ js ''Check the SureMark dashboard for more recent posts: {dashboard_url}''"

definition PLATFORM_SPECIFIC_instagram :: jsstring where
  "PLATFORM_SPECIFIC_instagram =
     [0xD83D, 0xDCF8]
     @ js '' This Instagram post is verified by @''
     @ js ''{suremark_username} using SureMark Digital.''
     @ [0x0A] @ js ''Check more verified content: {dashboard_url}''"

definition PLATFORM_SPECIFIC_youtube :: jsstring where
  "PLATFORM_SPECIFIC_youtube =
     [0xD83C, 0xDFA5]
     @ js '' This YouTube video is verified by @''
     @ js ''{suremark_username} using SureMark Digital.''
     @ [0x0A] @ js ''Check more verified content: {dashboard_url}''"

definition PLATFORM_SPECIFIC_website :: jsstring where
  "PLATFORM_SPECIFIC_website =
     [0xD83C, 0xDF10]
     @ js '' This content is verified by @''
     @ js ''{suremark_username} using SureMark Digital.''
     @ [0x0A] @ js ''Check more verified content: {dashboard_url}''"

definition PLATFORM_SPECIFIC_article :: jsstring where
  "PLATFORM_SPECIFIC_article =
     [0xD83D, 0xDCF0]
     @ js '' This article is verified by @''
     @ js ''{suremark_username} using SureMark Digital.''
     @ [0x0A] @ js ''Check more verified content: {dashboard_url}''"

definition PLATFORM_SPECIFIC :: "(jsstring \<times> jsstring) list" where
  "PLATFORM_SPECIFIC =
     [(js ''twitter'', PLATFORM_SPECIFIC_twitter),
      (js ''instagram'', PLATFORM_SPECIFIC_instagram),
      (js ''youtube'', PLATFORM_SPECIFIC_youtube),
      (js ''website'', PLATFORM_SPECIFIC_website),
      (js ''article'', PLATFORM_SPECIFIC_article)]"

text \<open>
  \<^verbatim>\<open>PLATFORM_SPECIFIC\<close> is an object literal, so indexing it with a name that is not an
  own property walks the prototype chain: these names of \<^verbatim>\<open>Object.prototype\<close> yield a
  function or an object, which is truthy and has no \<^verbatim>\<open>replace\<close> method.
\<close>

definition OBJECT_PROTOTYPE_KEYS :: "jsstring list" where
  "OBJECT_PROTOTYPE_KEYS =
     map js [''constructor'', ''__defineGetter__'', ''__defineSetter__'', ''hasOwnProperty'',
       ''__lookupGetter__'', ''__lookupSetter__'', ''isPrototypeOf'', ''propertyIsEnumerable'',
       ''toString'', ''valueOf'', ''__proto__'', ''toLocaleString'']"

definition MAX_TWEET_LENGTH :: nat where
  "MAX_TWEET_LENGTH = 280"

definition SUPPORTED_PLATFORMS :: "(jsstring \<times> jsstring) list" where
  "SUPPORTED_PLATFORMS =
     [(js ''twitter.com'', js ''twitter''),
      (js ''x.com'', js ''twitter''),
      (js ''instagram.com'', js ''instagram''),
      (js ''youtube.com'', js ''youtube''),
      (js ''youtu.be'', js ''youtube'')]"

definition MAX_CONTENT_LENGTH :: nat where
  "MAX_CONTENT_LENGTH = 1000"

definition DEFAULT_TITLE_LENGTH :: nat where
  "DEFAULT_TITLE_LENGTH = 100"

definition RATE_LIMIT :: jsstring where
  "RATE_LIMIT = js ''Rate limit exceeded. Please wait before trying again.''"

definition TWEET_TOO_LONG :: jsstring where
  "TWEET_TOO_LONG = js ''Generated tweet exceeds maximum length. Please use a shorter message.''"

definition TWEET_POSTED :: jsstring where
  "TWEET_POSTED = js ''Verification tweet posted successfully!''"


section \<open>Data\<close>

text \<open>
  Thrown errors. \<open>InvalidUrl\<close> is \<^verbatim>\<open>new Error(ERROR_MESSAGES.INVALID_URL)\<close>, the
  input-rejected outcome; \<open>ExtractionFailed\<close> is the missing platform-or-URL error;
  \<open>UrlTypeError\<close> is what \<^verbatim>\<open>new URL\<close> throws; \<open>NotAFunction\<close> is the TypeError of calling
  \<^verbatim>\<open>replace\<close> on a value that has none; \<open>MongoError code\<close> is a driver error with its
  \<^verbatim>\<open>code\<close> property (11000 is the duplicate-key code).
\<close>

datatype error =
    InvalidUrl
  | UrlTypeError
  | NotAFunction
  | ExtractionFailed
  | DatabaseNotInitialized
  | MongoError "nat option"

text \<open>The \<^verbatim>\<open>TweetResult\<close> interface.\<close>

record TweetResult =
  success :: bool
  tweet_id :: "jsstring option"
  tweet_url :: "jsstring option"
  message :: "jsstring option"
  error :: "jsstring option"
  retry_after :: "nat option"

text \<open>The stored document and the \<^verbatim>\<open>ProcessedPost\<close> interface; \<open>tweet\<close> is (id, url, postedAt).\<close>

type_synonym tweet = "jsstring option \<times> jsstring option \<times> nat"

record ProcessedPost =
  url :: jsstring
  platform :: jsstring
  processedAt :: nat
  suremarkUsername :: "jsstring option"
  title :: "jsstring option"
  content :: "jsstring option"
  author :: "jsstring option"
  success :: "bool option"
  tweet :: "tweet option"
  metadata :: "(jsstring list \<times> jsstring list \<times> jsstring list) option"

text \<open>The value every extraction strategy returns, and \<^verbatim>\<open>PostData\<close>, which extends it.\<close>

record extracted =
  title :: "jsstring option"
  content :: "jsstring option"
  author :: "jsstring option"
  timestamp :: "nat option"

record PostData = extracted +
  url :: "jsstring option"
  platform :: "jsstring option"
  suremark_username :: "jsstring option"

text \<open>What \<^verbatim>\<open>new URL(u)\<close> exposes of a string that parses.\<close>

record URL =
  hostname :: jsstring
  pathname :: jsstring

text \<open>
  A fetched page as the cheerio queries see it: \<open>attr_of d sel a\<close> is
  \<^verbatim>\<open>$(sel).attr(a)\<close>, \<open>text_of d sel\<close> is \<^verbatim>\<open>$(sel).text()\<close> and \<open>first_text_of d sel\<close> is
  \<^verbatim>\<open>$(sel).first().text()\<close>.
\<close>

datatype selector =
    MetaProperty string
  | MetaName string
  | Tag string
  | Class string
  | TestId string
  | HasAttr string

record dom =
  attr_of :: "selector \<Rightarrow> string \<Rightarrow> jsstring option"
  text_of :: "selector \<Rightarrow> jsstring"
  first_text_of :: "selector \<Rightarrow> jsstring"

text \<open>What \<^verbatim>\<open>client.v2.tweet\<close> does: returns data with an id, returns no data, or throws.\<close>

datatype api_reply =
    TweetData jsstring
  | NoData
  | ApiThrows "nat option" jsstring

text \<open>
  Effects on the outside world are recorded in a trace. The world is the database
  handle (\<open>initialized\<close> is \<^verbatim>\<open>this.collection\<close> being set), the documents of the collection
  and the trace so far.
\<close>

datatype event =
    StoreFind jsstring
  | StoreInsert ProcessedPost
  | HttpGet jsstring
  | ApiTweet jsstring "jsstring option"
  | Sleep nat

record world =
  initialized :: bool
  documents :: "ProcessedPost list"
  trace :: "event list"

text \<open>
  The collaborators outside the repository. Each answer may depend on the trace so far,
  so two calls with the same argument need not agree. \<open>parseUrl\<close> is \<^verbatim>\<open>new URL\<close>
  (\<open>None\<close> when it throws); \<open>axiosGet\<close> is the page fetch and parse (\<open>None\<close> when anything
  in it throws); \<open>findOneFails\<close> and \<open>insertOneFails\<close> are faults of the store other than
  the unique index on \<open>url\<close>; \<open>clock\<close> is \<^verbatim>\<open>new Date()\<close>; \<open>SURMARK_DASHBOARD_URL\<close> is the
  value of that name in \<^verbatim>\<open>BOT_CONFIG\<close>, read from the process environment.
\<close>

record env =
  parseUrl :: "jsstring \<Rightarrow> URL option"
  axiosGet :: "event list \<Rightarrow> jsstring \<Rightarrow> dom option"
  v2tweet :: "event list \<Rightarrow> jsstring \<Rightarrow> jsstring option \<Rightarrow> api_reply"
  findOneFails :: "event list \<Rightarrow> jsstring \<Rightarrow> bool"
  insertOneFails :: "event list \<Rightarrow> ProcessedPost \<Rightarrow> nat option option"
  clock :: "event list \<Rightarrow> nat"
  SURMARK_DASHBOARD_URL :: jsstring


section \<open>Content extraction and message composition (post-processor.ts)\<close>

definition isValidUrl :: "env \<Rightarrow> jsstring \<Rightarrow> bool" where
  "isValidUrl env u = (case parseUrl env u of None \<Rightarrow> False | Some urlObj \<Rightarrow> True)"

definition detectPlatform :: "env \<Rightarrow> jsstring \<Rightarrow> error + jsstring" where
  "detectPlatform env u =
     (case parseUrl env u of
        None \<Rightarrow> Inl UrlTypeError
      | Some urlObj \<Rightarrow>
          let hostname' = toLowerCase (hostname urlObj) in
          (case find (\<lambda>(domain, p). js_includes hostname' domain) SUPPORTED_PLATFORMS of
             Some (domain, p) \<Rightarrow> Inr p
           | None \<Rightarrow> Inr (js ''website'')))"

definition extractTweetId :: "env \<Rightarrow> jsstring \<Rightarrow> jsstring option" where
  "extractTweetId env u =
     (case parseUrl env u of
        None \<Rightarrow> None
      | Some urlObj \<Rightarrow>
          let pathParts = js_split 0x2F (pathname urlObj) in
          (case indexOf pathParts (js ''status'') of
             None \<Rightarrow> None
           | Some statusIndex \<Rightarrow>
               if statusIndex + 1 < length pathParts
               then (let tweetId = pathParts ! (statusIndex + 1)
                     in if tweetId \<noteq> [] then Some tweetId else None)
               else None))"

text \<open>
  The strategies take the world and return it with the events they caused. Every
  \<^verbatim>\<open>catch\<close> of the source is the \<open>None\<close> branch of the call it guards.
\<close>

definition extractTwitterContent :: "env \<Rightarrow> world \<Rightarrow> jsstring \<Rightarrow> extracted \<times> world" where
  "extractTwitterContent env w u =
     (case extractTweetId env u of
        Some tweetId \<Rightarrow>
          (\<lparr>title = Some (js ''X/Twitter Post''),
            content = Some (js ''Post from X/Twitter (ID: '' @ tweetId @ js '')''),
            author = None,
            timestamp = Some (clock env (trace w))\<rparr>, w)
      | None \<Rightarrow>
          (\<lparr>title = Some (js ''X/Twitter Post''),
            content = Some (js ''Verified content from X/Twitter''),
            author = None,
            timestamp = Some (clock env (trace w))\<rparr>, w))"

definition extractInstagramContent :: "env \<Rightarrow> world \<Rightarrow> jsstring \<Rightarrow> extracted \<times> world" where
  "extractInstagramContent env w u =
     (let w' = w\<lparr>trace := trace w @ [HttpGet u]\<rparr> in
      case axiosGet env (trace w) u of
        Some d \<Rightarrow>
          let content' =
                js_or (js_or (attr_of d (MetaProperty ''og:description'') ''content'')
                             (Some (text_of d (Class ''caption''))))
                      (Some (text_of d (TestId ''post-caption'')));
              author' =
                js_or (map_option (split_head (js '' on Instagram''))
                         (attr_of d (MetaProperty ''og:title'') ''content''))
                      (Some (text_of d (Class ''username'')))
          in (\<lparr>title = Some (js ''Instagram Post by ''
                              @ (case author' of None \<Rightarrow> [] | Some a \<Rightarrow> a)),
               content = (if truthy content' then map_option (take MAX_CONTENT_LENGTH) content'
                          else None),
               author = (if truthy author' then author' else None),
               timestamp = Some (clock env (trace w'))\<rparr>, w')
      | None \<Rightarrow>
          (\<lparr>title = Some (js ''Instagram Post''),
            content = Some (js ''Content from Instagram''),
            author = None,
            timestamp = Some (clock env (trace w'))\<rparr>, w'))"

definition extractYouTubeContent :: "env \<Rightarrow> world \<Rightarrow> jsstring \<Rightarrow> extracted \<times> world" where
  "extractYouTubeContent env w u =
     (let w' = w\<lparr>trace := trace w @ [HttpGet u]\<rparr> in
      case axiosGet env (trace w) u of
        Some d \<Rightarrow>
          let title' =
                js_or (js_or (attr_of d (MetaProperty ''og:title'') ''content'')
                             (Some (text_of d (Tag ''title''))))
                      (Some (text_of d (Class ''title'')));
              author' =
                js_or (js_or (attr_of d (MetaName ''author'') ''content'')
                             (Some (text_of d (Class ''channel-name''))))
                      (Some (text_of d (TestId ''channel-name'')));
              description =
                js_or (attr_of d (MetaProperty ''og:description'') ''content'')
                      (Some (text_of d (Class ''description'')))
          in (\<lparr>title = (if truthy title' then map_option (take DEFAULT_TITLE_LENGTH) title'
                        else None),
               content = (if truthy description
                          then map_option (take MAX_CONTENT_LENGTH) description else None),
               author = (if truthy author' then author' else None),
               timestamp = Some (clock env (trace w'))\<rparr>, w')
      | None \<Rightarrow>
          (\<lparr>title = Some (js ''YouTube Video''),
            content = Some (js ''Content from YouTube''),
            author = None,
            timestamp = Some (clock env (trace w'))\<rparr>, w'))"

definition extractWebsiteContent :: "env \<Rightarrow> world \<Rightarrow> jsstring \<Rightarrow> extracted \<times> world" where
  "extractWebsiteContent env w u =
     (let w' = w\<lparr>trace := trace w @ [HttpGet u]\<rparr> in
      case axiosGet env (trace w) u of
        Some d \<Rightarrow>
          let title' =
                js_or (js_or (attr_of d (MetaProperty ''og:title'') ''content'')
                             (Some (text_of d (Tag ''title''))))
                      (Some (first_text_of d (Tag ''h1'')));
              content' =
                js_or (js_or (attr_of d (MetaProperty ''og:description'') ''content'')
                             (attr_of d (MetaName ''description'') ''content''))
                      (Some (first_text_of d (Tag ''p'')));
              author' =
                js_or (js_or (attr_of d (MetaName ''author'') ''content'')
                             (Some (text_of d (Class ''author''))))
                      (attr_of d (HasAttr ''data-author'') ''data-author'')
          in (\<lparr>title = (if truthy title' then map_option (take DEFAULT_TITLE_LENGTH) title'
                        else None),
               content = (if truthy content' then map_option (take MAX_CONTENT_LENGTH) content'
                          else None),
               author = (if truthy author' then author' else None),
               timestamp = Some (clock env (trace w'))\<rparr>, w')
      | None \<Rightarrow>
          (\<lparr>title = Some (js ''Website Content''),
            content = Some (js ''Content from website''),
            author = None,
            timestamp = Some (clock env (trace w'))\<rparr>, w'))"

definition extractContent :: "env \<Rightarrow> world \<Rightarrow> jsstring \<Rightarrow> jsstring \<Rightarrow> extracted \<times> world" where
  "extractContent env w u p =
     (if p = js ''twitter'' then extractTwitterContent env w u
      else if p = js ''instagram'' then extractInstagramContent env w u
      else if p = js ''youtube'' then extractYouTubeContent env w u
      else extractWebsiteContent env w u)"

definition processUrl ::
  "env \<Rightarrow> world \<Rightarrow> jsstring \<Rightarrow> jsstring option \<Rightarrow> (error + PostData) \<times> world" where
  "processUrl env w u suremarkUsername' =
     (if \<not> isValidUrl env u then (Inl InvalidUrl, w)
      else case detectPlatform env u of
        Inl e \<Rightarrow> (Inl e, w)
      | Inr p \<Rightarrow>
          (case extractContent env w u p of
             (c, w') \<Rightarrow>
               (Inr \<lparr>title = title c,
                      content = content c,
                      author = author c,
                      timestamp = timestamp c,
                      url = Some u,
                      platform = Some p,
                      suremark_username = suremarkUsername'\<rparr>, w')))"

definition generateVerificationMessage ::
  "jsstring \<Rightarrow> jsstring \<Rightarrow> jsstring \<Rightarrow> jsstring option \<Rightarrow> error + jsstring" where
  "generateVerificationMessage p suremarkUsername' dashboardUrl customMessage =
     (case (if truthy customMessage then customMessage else None) of
        Some custom \<Rightarrow>
          Inr (js_replace
                 (js_replace custom (js ''@'' @ js ''{suremark_username}'') (0x40 # suremarkUsername'))
                 (js ''{dashboard_url}'') dashboardUrl)
      | None \<Rightarrow>
          (case map_of PLATFORM_SPECIFIC p of
             Some template \<Rightarrow>
               Inr (js_replace
                      (js_replace template (js ''@'' @ js ''{suremark_username}'')
                         (0x40 # suremarkUsername'))
                      (js ''{dashboard_url}'') dashboardUrl)
           | None \<Rightarrow>
               if p \<in> set OBJECT_PROTOTYPE_KEYS then Inl NotAFunction
               else
                 Inr (js_replace
                        (js_replace DEFAULT_TEMPLATE (js ''@'' @ js ''{suremark_username}'')
                           (0x40 # suremarkUsername'))
                        (js ''{dashboard_url}'') dashboardUrl)))"


section \<open>The posting client (x-api.ts)\<close>

definition postTweet ::
  "env \<Rightarrow> world \<Rightarrow> jsstring \<Rightarrow> jsstring option \<Rightarrow> TweetResult \<times> world" where
  "postTweet env w message' replyTo =
     (if length message' > MAX_TWEET_LENGTH
      then (\<lparr>TweetResult.success = False, tweet_id = None, tweet_url = None, message = None,
              error = Some TWEET_TOO_LONG, retry_after = None\<rparr>, w)
      else
        let reply = (if truthy replyTo then replyTo else None);
            w' = w\<lparr>trace := trace w @ [ApiTweet message' reply]\<rparr>
        in case v2tweet env (trace w) message' reply of
             TweetData tweetId \<Rightarrow>
               (\<lparr>TweetResult.success = True, tweet_id = Some tweetId,
                  tweet_url = Some (js ''https://twitter.com/user/status/'' @ tweetId),
                  message = Some TWEET_POSTED, error = None, retry_after = None\<rparr>, w')
           | NoData \<Rightarrow>
               (\<lparr>TweetResult.success = False, tweet_id = None, tweet_url = None, message = None,
                  error = Some (js ''X API error: ''
                                @ js ''No response data received from X API''),
                  retry_after = None\<rparr>, w')
           | ApiThrows code msg \<Rightarrow>
               if code = Some 429
               then (\<lparr>TweetResult.success = False, tweet_id = None, tweet_url = None,
                       message = None, error = Some RATE_LIMIT, retry_after = Some 900\<rparr>, w')
               else (\<lparr>TweetResult.success = False, tweet_id = None, tweet_url = None,
                       message = None, error = Some (js ''X API error: '' @ msg),
                       retry_after = None\<rparr>, w'))"


section \<open>The store (database.ts)\<close>

text \<open>
  \<^verbatim>\<open>collection.insertOne\<close> under the unique index on \<open>url\<close> that \<^verbatim>\<open>initialize\<close> creates: a
  document whose \<open>url\<close> is already stored is refused with code 11000.
\<close>

definition insertOne :: "env \<Rightarrow> world \<Rightarrow> ProcessedPost \<Rightarrow> (error + unit) \<times> world" where
  "insertOne env w doc =
     (let w' = w\<lparr>trace := trace w @ [StoreInsert doc]\<rparr> in
      if ProcessedPost.url doc \<in> set (map ProcessedPost.url (documents w))
      then (Inl (MongoError (Some 11000)), w')
      else case insertOneFails env (trace w) doc of
             Some code \<Rightarrow> (Inl (MongoError code), w')
           | None \<Rightarrow> (Inr (), w'\<lparr>documents := documents w @ [doc]\<rparr>))"

definition isPostProcessed :: "env \<Rightarrow> world \<Rightarrow> jsstring \<Rightarrow> (error + bool) \<times> world" where
  "isPostProcessed env w u =
     (if \<not> initialized w then (Inl DatabaseNotInitialized, w)
      else
        let w' = w\<lparr>trace := trace w @ [StoreFind u]\<rparr> in
        if findOneFails env (trace w) u then (Inr False, w')
        else (Inr (find (\<lambda>d. ProcessedPost.url d = u \<and> ProcessedPost.success d = Some True)
                     (documents w) \<noteq> None), w'))"

definition saveProcessedPost :: "env \<Rightarrow> world \<Rightarrow> ProcessedPost \<Rightarrow> (error + unit) \<times> world" where
  "saveProcessedPost env w post =
     (if \<not> initialized w then (Inl DatabaseNotInitialized, w)
      else
        case insertOne env w
               \<lparr>ProcessedPost.url = ProcessedPost.url post,
                ProcessedPost.platform = ProcessedPost.platform post,
                processedAt = processedAt post,
                suremarkUsername = suremarkUsername post,
                ProcessedPost.title = ProcessedPost.title post,
                ProcessedPost.content = ProcessedPost.content post,
                ProcessedPost.author = ProcessedPost.author post,
                ProcessedPost.success = ProcessedPost.success post,
                tweet = None,
                metadata = metadata post\<rparr> of
          (Inl e, w') \<Rightarrow> if e = MongoError (Some 11000) then (Inr (), w') else (Inl e, w')
        | (Inr r, w') \<Rightarrow> (Inr (), w'))"

definition saveSuccessfulPost ::
  "env \<Rightarrow> world \<Rightarrow> ProcessedPost \<Rightarrow> jsstring option \<Rightarrow> jsstring option
   \<Rightarrow> (error + unit) \<times> world" where
  "saveSuccessfulPost env w post tweetId tweetUrl =
     (if \<not> initialized w then (Inl DatabaseNotInitialized, w)
      else
        case insertOne env w
               \<lparr>ProcessedPost.url = ProcessedPost.url post,
                ProcessedPost.platform = ProcessedPost.platform post,
                processedAt = processedAt post,
                suremarkUsername = suremarkUsername post,
                ProcessedPost.title = ProcessedPost.title post,
                ProcessedPost.content = ProcessedPost.content post,
                ProcessedPost.author = ProcessedPost.author post,
                ProcessedPost.success = Some True,
                tweet = Some (tweetId, tweetUrl, clock env (trace w)),
                metadata = metadata post\<rparr> of
          (Inl e, w') \<Rightarrow> if e = MongoError (Some 11000) then (Inr (), w') else (Inl e, w')
        | (Inr r, w') \<Rightarrow> (Inr (), w'))"


section \<open>The commands (index.ts)\<close>

text \<open>\<^verbatim>\<open>v || "literal"\<close> for a value of type \<^verbatim>\<open>string | undefined\<close>.\<close>

definition js_or_str :: "jsstring option \<Rightarrow> jsstring \<Rightarrow> jsstring" where
  "js_or_str v d = (case v of None \<Rightarrow> d | Some s \<Rightarrow> if s \<noteq> [] then s else d)"

text \<open>
  The object literal that both commands hand to \<^verbatim>\<open>saveProcessedPost\<close> and
  \<^verbatim>\<open>saveSuccessfulPost\<close>: \<open>now\<close> is its \<^verbatim>\<open>new Date()\<close>, \<open>succ\<close> its \<^verbatim>\<open>success\<close> property.
\<close>

definition postRecord :: "PostData \<Rightarrow> nat \<Rightarrow> bool option \<Rightarrow> ProcessedPost" where
  "postRecord postData now succ =
     \<lparr>ProcessedPost.url = js_or_str (PostData.url postData) [],
      ProcessedPost.platform = js_or_str (PostData.platform postData) [],
      processedAt = now,
      suremarkUsername = js_or (suremark_username postData) None,
      ProcessedPost.title = js_or (title postData) None,
      ProcessedPost.content = js_or (content postData) None,
      ProcessedPost.author = js_or (author postData) None,
      ProcessedPost.success = succ,
      tweet = None,
      metadata = None\<rparr>"

text \<open>
  The steps both commands share after the idempotency check: extract, check the required
  fields, generate the message. \<open>Inl\<close> is a throw.
\<close>

definition prepare ::
  "env \<Rightarrow> world \<Rightarrow> jsstring \<Rightarrow> jsstring option \<Rightarrow> jsstring option
   \<Rightarrow> (error + PostData \<times> jsstring) \<times> world" where
  "prepare env w u username message' =
     (case processUrl env w u username of
        (Inl e, w') \<Rightarrow> (Inl e, w')
      | (Inr postData, w') \<Rightarrow>
          if \<not> truthy (PostData.platform postData) \<or> \<not> truthy (PostData.url postData)
          then (Inl ExtractionFailed, w')
          else
            (case generateVerificationMessage
                    (js_or_str (PostData.platform postData) [])
                    (js_or_str (suremark_username postData) (js ''suremark_user''))
                    (SURMARK_DASHBOARD_URL env) message' of
               Inl e \<Rightarrow> (Inl e, w')
             | Inr verificationMessage \<Rightarrow> (Inr (postData, verificationMessage), w')))"

text \<open>
  How one URL ends. \<open>AlreadyProcessed\<close> is the duplicate-post exit; \<open>DryRunRecorded\<close>
  carries the generated tweet; \<open>Posted\<close> carries the tweet URL and id; \<open>PostFailed\<close> carries
  \<^verbatim>\<open>result.error\<close>; \<open>Thrown\<close> is the \<^verbatim>\<open>catch\<close> clause of the command (\<open>Thrown InvalidUrl\<close> is
  the input-rejected outcome).
\<close>

datatype outcome =
    AlreadyProcessed
  | DryRunRecorded jsstring
  | Posted "jsstring option" "jsstring option"
  | PostFailed "jsstring option"
  | Thrown error

text \<open>The \<^verbatim>\<open>tweet\<close> command from the extraction step to the end of the dry-run branch.\<close>

definition pipeline ::
  "env \<Rightarrow> world \<Rightarrow> jsstring \<Rightarrow> jsstring option \<Rightarrow> jsstring option \<Rightarrow> bool
   \<Rightarrow> outcome \<times> world" where
  "pipeline env w u username message' dryRun =
     (case prepare env w u username message' of
        (Inl e, w2) \<Rightarrow> (Thrown e, w2)
      | (Inr (postData, verificationMessage), w2) \<Rightarrow>
          if dryRun then
            (case saveProcessedPost env w2
                    (postRecord postData (clock env (trace w2)) (Some False)) of
               (Inl e, w3) \<Rightarrow> (Thrown e, w3)
             | (Inr r, w3) \<Rightarrow> (DryRunRecorded verificationMessage, w3))
          else
            (case postTweet env w2 verificationMessage None of
               (result, w3) \<Rightarrow>
                 if TweetResult.success result then
                   (case saveSuccessfulPost env w3
                           (postRecord postData (clock env (trace w3)) None)
                           (tweet_id result) (tweet_url result) of
                      (Inl e, w4) \<Rightarrow> (Thrown e, w4)
                    | (Inr r, w4) \<Rightarrow> (Posted (tweet_url result) (tweet_id result), w4))
                 else (PostFailed (error result), w3)))"

text \<open>
  The body of the \<^verbatim>\<open>tweet\<close> command between the credential check and
  \<^verbatim>\<open>database.close()\<close>: the run of the pipeline on one URL.
\<close>

definition process ::
  "env \<Rightarrow> world \<Rightarrow> jsstring \<Rightarrow> jsstring option \<Rightarrow> jsstring option \<Rightarrow> bool
   \<Rightarrow> outcome \<times> world" where
  "process env w u username message' dryRun =
     (case isPostProcessed env w u of
        (Inl e, w1) \<Rightarrow> (Thrown e, w1)
      | (Inr isProcessed, w1) \<Rightarrow>
          if isProcessed then (AlreadyProcessed, w1)
          else pipeline env w1 u username message' dryRun)"

text \<open>
  The loop of the \<^verbatim>\<open>batch\<close> command. \<open>n\<close> is \<^verbatim>\<open>urls.length\<close> and \<open>delay\<close> is
  \<^verbatim>\<open>parseInt(options.delay)\<close>. Every throw inside the loop body lands in its \<^verbatim>\<open>catch\<close>,
  which counts a failure and goes on.
\<close>

record counters =
  processed :: nat
  skipped :: nat
  failed :: nat

definition batchItem ::
  "env \<Rightarrow> nat \<Rightarrow> jsstring option \<Rightarrow> nat \<Rightarrow> bool \<Rightarrow> jsstring
   \<Rightarrow> counters \<times> world \<Rightarrow> counters \<times> world" where
  "batchItem env n username delay dryRun u cw =
     (case cw of (c, w) \<Rightarrow>
     (case isPostProcessed env w u of
        (Inl e, w1) \<Rightarrow> (c\<lparr>failed := failed c + 1\<rparr>, w1)
      | (Inr isProcessed, w1) \<Rightarrow>
          if isProcessed then (c\<lparr>skipped := skipped c + 1\<rparr>, w1)
          else
            (case prepare env w1 u username None of
               (Inl e, w2) \<Rightarrow> (c\<lparr>failed := failed c + 1\<rparr>, w2)
             | (Inr (postData, verificationMessage), w2) \<Rightarrow>
                 if \<not> dryRun then
                   (case postTweet env w2 verificationMessage None of
                      (result, w3) \<Rightarrow>
                        (case (if TweetResult.success result then
                                 (case saveSuccessfulPost env w3
                                         (postRecord postData (clock env (trace w3)) None)
                                         (tweet_id result) (tweet_url result) of
                                    (Inl e, w4) \<Rightarrow> (Inl e, w4)
                                  | (Inr r, w4) \<Rightarrow>
                                      (Inr (c\<lparr>processed := processed c + 1\<rparr>), w4))
                               else (Inr (c\<lparr>failed := failed c + 1\<rparr>), w3)) of
                           (Inl e, w4) \<Rightarrow> (c\<lparr>failed := failed c + 1\<rparr>, w4)
                         | (Inr c', w4) \<Rightarrow>
                             if processed c' < n
                             then (c', w4\<lparr>trace := trace w4 @ [Sleep (delay * 1000)]\<rparr>)
                             else (c', w4)))
                 else
                   (case saveProcessedPost env w2
                           (postRecord postData (clock env (trace w2)) (Some False)) of
                      (Inl e, w3) \<Rightarrow> (c\<lparr>failed := failed c + 1\<rparr>, w3)
                    | (Inr r, w3) \<Rightarrow> (c\<lparr>processed := processed c + 1\<rparr>, w3)))))"

fun batchLoop ::
  "env \<Rightarrow> nat \<Rightarrow> jsstring option \<Rightarrow> nat \<Rightarrow> bool \<Rightarrow> jsstring list
   \<Rightarrow> counters \<times> world \<Rightarrow> counters \<times> world" where
  "batchLoop env n username delay dryRun [] cw = cw"
| "batchLoop env n username delay dryRun (u # us) cw =
     batchLoop env n username delay dryRun us (batchItem env n username delay dryRun u cw)"

definition runBatch ::
  "env \<Rightarrow> world \<Rightarrow> jsstring list \<Rightarrow> jsstring option \<Rightarrow> nat \<Rightarrow> bool \<Rightarrow> counters \<times> world" where
  "runBatch env w urls username delay dryRun =
     batchLoop env (length urls) username delay dryRun urls
       (\<lparr>processed = 0, skipped = 0, failed = 0\<rparr>, w)"


section \<open>Notions used by the theorems\<close>

text \<open>
  The path segment that follows the first literal \<^verbatim>\<open>status\<close> segment, when it is there
  and not empty.
\<close>

fun segment_after_status :: "jsstring list \<Rightarrow> jsstring option" where
  "segment_after_status [] = None"
| "segment_after_status [p] = None"
| "segment_after_status (p # q # ps) =
     (if p = js ''status'' then (if q \<noteq> [] then Some q else None)
      else segment_after_status (q # ps))"

text \<open>The store holds a record for exactly this URL with \<^verbatim>\<open>success = true\<close>.\<close>

definition holds_success :: "world \<Rightarrow> jsstring \<Rightarrow> bool" where
  "holds_success w u =
     (\<exists>d \<in> set (documents w). ProcessedPost.url d = u \<and> ProcessedPost.success d = Some True)"

text \<open>The platform tags that \<open>detectPlatform\<close> can return.\<close>

definition PLATFORM_TAGS :: "jsstring list" where
  "PLATFORM_TAGS = [js ''twitter'', js ''instagram'', js ''youtube'', js ''website'']"

text \<open>Kinds of events.\<close>

fun is_api_call :: "event \<Rightarrow> bool" where
  "is_api_call (ApiTweet m r) = True"
| "is_api_call e = False"


fun is_fetch :: "event \<Rightarrow> bool" where
  "is_fetch (HttpGet u) = True"
| "is_fetch e = False"

text \<open>The counter that the batch driver is to increment for each outcome.\<close>

definition tally :: "outcome \<Rightarrow> counters \<Rightarrow> counters" where
  "tally out c =
     (case out of
        AlreadyProcessed \<Rightarrow> c\<lparr>skipped := skipped c + 1\<rparr>
      | DryRunRecorded m \<Rightarrow> c\<lparr>processed := processed c + 1\<rparr>
      | Posted tweetUrl tweetId \<Rightarrow> c\<lparr>processed := processed c + 1\<rparr>
      | PostFailed e \<Rightarrow> c\<lparr>failed := failed c + 1\<rparr>
      | Thrown e \<Rightarrow> c\<lparr>failed := failed c + 1\<rparr>)"

text \<open>
  The batch driver as the claim describes it: for one URL, run the single-URL pipeline on
  the world as it is, increment the counter of its outcome, and leave the world that run
  left; \<open>pauses\<close> tells when the driver then sleeps (after a posting attempt of a live
  run, while the processed count is below the number of URLs).
\<close>

definition pauses :: "outcome \<Rightarrow> counters \<Rightarrow> nat \<Rightarrow> bool \<Rightarrow> bool" where
  "pauses out c n dryRun =
     (\<not> dryRun \<and>
      (case out of
         Posted tweetUrl tweetId \<Rightarrow> processed c + 1 < n
       | PostFailed e \<Rightarrow> processed c < n
       | AlreadyProcessed \<Rightarrow> False
       | DryRunRecorded m \<Rightarrow> False
       | Thrown e \<Rightarrow> False))"

definition item_step ::
  "env \<Rightarrow> nat \<Rightarrow> jsstring option \<Rightarrow> nat \<Rightarrow> bool \<Rightarrow> jsstring
   \<Rightarrow> counters \<times> world \<Rightarrow> counters \<times> world" where
  "item_step env n username delay dryRun u cw =
     (case cw of (c, w) \<Rightarrow>
     (case process env w u username None dryRun of
        (out, w') \<Rightarrow>
          (tally out c,
           if pauses out c n dryRun then w'\<lparr>trace := trace w' @ [Sleep (delay * 1000)]\<rparr>
           else w')))"

text \<open>
  Replacement of the first occurrence of a placeholder by a text taken literally, and the
  template that belongs to a platform tag.
\<close>

definition replace_first :: "jsstring \<Rightarrow> jsstring \<Rightarrow> jsstring \<Rightarrow> jsstring" where
  "replace_first s pat rep =
     (case indexOfStr pat s of
        None \<Rightarrow> s
      | Some i \<Rightarrow> take i s @ rep @ drop (i + length pat) s)"

definition template_for :: "jsstring \<Rightarrow> jsstring" where
  "template_for p =
     (case map_of PLATFORM_SPECIFIC p of Some t \<Rightarrow> t | None \<Rightarrow> DEFAULT_TEMPLATE)"

text \<open>
  A concrete environment for instantiating the theorems: four strings parse as URLs,
  every page fetch fails, the API accepts every tweet, the store has no faults and the
  clock counts the events so far.
\<close>

definition sample_parse :: "jsstring \<Rightarrow> URL option" where
  "sample_parse u =
     (if u = js ''https://x.example/user/status/42''
      then Some \<lparr>hostname = js ''x.example'', pathname = js ''/user/status/42''\<rparr>
      else if u = js ''https://x.example/user''
      then Some \<lparr>hostname = js ''x.example'', pathname = js ''/user''\<rparr>
      else if u = js ''https://twitter.com/a/status/7''
      then Some \<lparr>hostname = js ''twitter.com'', pathname = js ''/a/status/7''\<rparr>
      else if u = js ''https://twitter.com/b/status/8''
      then Some \<lparr>hostname = js ''twitter.com'', pathname = js ''/b/status/8''\<rparr>
      else None)"

definition sample_env :: env where
  "sample_env =
     \<lparr>parseUrl = sample_parse,
      axiosGet = (\<lambda>h u. None),
      v2tweet = (\<lambda>h m r. TweetData (js ''1001'')),
      findOneFails = (\<lambda>h u. False),
      insertOneFails = (\<lambda>h d. None),
      clock = length,
      SURMARK_DASHBOARD_URL = js ''https://suremark.com/dashboard''\<rparr>"

definition fresh_world :: world where
  "fresh_world = \<lparr>initialized = True, documents = [], trace = []\<rparr>"

text \<open>
  A store that already holds a successful record for one URL and a dry-run record for
  another.
\<close>

definition sample_record :: "jsstring \<Rightarrow> bool \<Rightarrow> ProcessedPost" where
  "sample_record u b =
     \<lparr>ProcessedPost.url = u,
      ProcessedPost.platform = js ''twitter'',
      processedAt = 0,
      suremarkUsername = None,
      ProcessedPost.title = Some (js ''X/Twitter Post''),
      ProcessedPost.content = Some (js ''Verified content from X/Twitter''),
      ProcessedPost.author = None,
      ProcessedPost.success = Some b,
      tweet = None,
      metadata = None\<rparr>"

definition stored_world :: world where
  "stored_world =
     \<lparr>initialized = True,
      documents = [sample_record (js ''https://twitter.com/a/status/7'') True,
                   sample_record (js ''https://twitter.com/b/status/8'') False],
      trace = []\<rparr>"

text \<open>A page whose only field is an open-graph title of 120 letters.\<close>

definition long_title_page :: dom where
  "long_title_page =
     \<lparr>attr_of = (\<lambda>sel a. if sel = MetaProperty ''og:title'' \<and> a = ''content''
                           then Some (replicate 120 0x61) else None),
      text_of = (\<lambda>sel. []),
      first_text_of = (\<lambda>sel. [])\<rparr>"


section \<open>Effects of the operations\<close>

lemma isPostProcessed_uninit:
  "\<not> initialized w \<Longrightarrow> isPostProcessed env w u = (Inl DatabaseNotInitialized, w)"
  by (simp add: isPostProcessed_def)

lemma isPostProcessed_init:
  "initialized w \<Longrightarrow>
   isPostProcessed env w u =
     (Inr (\<not> findOneFails env (trace w) u \<and> holds_success w u),
      w\<lparr>trace := trace w @ [StoreFind u]\<rparr>)"
  by (auto simp: isPostProcessed_def holds_success_def Let_def find_None_iff)

lemma detectPlatform_tags:
  "detectPlatform env u = Inr p \<Longrightarrow> p \<in> set PLATFORM_TAGS"
  by (auto simp: detectPlatform_def Let_def PLATFORM_TAGS_def SUPPORTED_PLATFORMS_def
      split: option.splits if_splits)

lemma detectPlatform_valid:
  "parseUrl env u = Some x \<Longrightarrow> \<exists>p. detectPlatform env u = Inr p"
  by (auto simp: detectPlatform_def Let_def split: option.splits)

lemma extractContent_effect:
  "extractContent env w u p = (c, w') \<Longrightarrow>
   documents w' = documents w \<and> initialized w' = initialized w \<and>
   (trace w' = trace w \<or> trace w' = trace w @ [HttpGet u])"
  by (auto simp: extractContent_def extractTwitterContent_def extractInstagramContent_def
      extractYouTubeContent_def extractWebsiteContent_def Let_def
      split: if_splits option.splits)

lemma processUrl_invalid:
  "parseUrl env u = None \<Longrightarrow> processUrl env w u un = (Inl InvalidUrl, w)"
  by (simp add: processUrl_def isValidUrl_def)


lemma map_of_tags:
  "p \<in> set PLATFORM_TAGS \<Longrightarrow> \<exists>t. map_of PLATFORM_SPECIFIC p = Some t"
  by (auto simp: PLATFORM_TAGS_def PLATFORM_SPECIFIC_def)

lemma generate_tags:
  "p \<in> set PLATFORM_TAGS \<Longrightarrow> \<exists>r. generateVerificationMessage p un d m = Inr r"
  using map_of_tags [of p]
  by (auto simp: generateVerificationMessage_def split: option.splits)

lemma tags_nonempty: "p \<in> set PLATFORM_TAGS \<Longrightarrow> p \<noteq> []"
  by (auto simp: PLATFORM_TAGS_def js_def)

lemma prepare_invalid:
  "parseUrl env u = None \<Longrightarrow> prepare env w u un m = (Inl InvalidUrl, w)"
  by (simp add: prepare_def processUrl_invalid)



lemma insertOne_dup:
  "ProcessedPost.url doc \<in> ProcessedPost.url ` set (documents w) \<Longrightarrow>
   insertOne env w doc =
     (Inl (MongoError (Some 11000)), w\<lparr>trace := trace w @ [StoreInsert doc]\<rparr>)"
  by (simp add: insertOne_def)

lemma insertOne_fresh:
  "ProcessedPost.url doc \<notin> ProcessedPost.url ` set (documents w) \<Longrightarrow>
   insertOneFails env (trace w) doc = None \<Longrightarrow>
   insertOne env w doc =
     (Inr (), w\<lparr>trace := trace w @ [StoreInsert doc], documents := documents w @ [doc]\<rparr>)"
  by (simp add: insertOne_def)


lemma saveProcessedPost_postRecord:
  "initialized w \<Longrightarrow>
   saveProcessedPost env w (postRecord pd now s) =
     (case insertOne env w (postRecord pd now s) of
        (Inl e, w') \<Rightarrow> if e = MongoError (Some 11000) then (Inr (), w') else (Inl e, w')
      | (Inr r, w') \<Rightarrow> (Inr (), w'))"
  by (simp add: saveProcessedPost_def postRecord_def)

lemma saveSuccessfulPost_postRecord:
  "initialized w \<Longrightarrow>
   saveSuccessfulPost env w (postRecord pd now s) tid turl =
     (case insertOne env w
             ((postRecord pd now (Some True))
                \<lparr>tweet := Some (tid, turl, clock env (trace w))\<rparr>) of
        (Inl e, w') \<Rightarrow> if e = MongoError (Some 11000) then (Inr (), w') else (Inl e, w')
      | (Inr r, w') \<Rightarrow> (Inr (), w'))"
  by (simp add: saveSuccessfulPost_def postRecord_def)

lemma pipeline_not_already:
  "fst (pipeline env w u un m dry) \<noteq> AlreadyProcessed"
  by (auto simp: pipeline_def split: prod.splits sum.splits if_splits)

lemma process_uninit:
  "\<not> initialized w \<Longrightarrow> process env w u un m dry = (Thrown DatabaseNotInitialized, w)"
  by (simp add: process_def isPostProcessed_uninit)

lemma process_init:
  "initialized w \<Longrightarrow>
   process env w u un m dry =
     (if \<not> findOneFails env (trace w) u \<and> holds_success w u
      then (AlreadyProcessed, w\<lparr>trace := trace w @ [StoreFind u]\<rparr>)
      else pipeline env (w\<lparr>trace := trace w @ [StoreFind u]\<rparr>) u un m dry)"
  by (simp add: process_def isPostProcessed_init)

lemma holds_success_no_docs:
  "holds_success w u \<Longrightarrow> u \<in> ProcessedPost.url ` set (documents w)"
  by (auto simp: holds_success_def)

lemma batchItem_tally:
  "fst (batchItem env n un delay dry u (c, w)) = tally (fst (process env w u un None dry)) c"
  by (auto simp: batchItem_def process_def pipeline_def tally_def
      split: prod.splits sum.splits if_splits)

lemma batchItem_documents:
  "documents (snd (batchItem env n un delay dry u (c, w)))
   = documents (snd (process env w u un None dry))"
  by (auto simp: batchItem_def process_def pipeline_def
      split: prod.splits sum.splits if_splits)

lemma batchItem_initialized:
  "initialized (snd (batchItem env n un delay dry u (c, w)))
   = initialized (snd (process env w u un None dry))"
  by (auto simp: batchItem_def process_def pipeline_def
      split: prod.splits sum.splits if_splits)

lemma prepare_reaches:
  assumes "parseUrl env u = Some x" and "u \<noteq> []"
  shows "\<exists>pd msg w' p es. prepare env w u un m = (Inr (pd, msg), w') \<and>
           detectPlatform env u = Inr p \<and>
           generateVerificationMessage p (js_or_str un (js ''suremark_user''))
             (SURMARK_DASHBOARD_URL env) m = Inr msg \<and>
           PostData.url pd = Some u \<and>
           documents w' = documents w \<and> initialized w' = initialized w \<and>
           trace w' = trace w @ es \<and> list_all is_fetch es"
proof -
  from assms(1) obtain p where p: "detectPlatform env u = Inr p"
    using detectPlatform_valid by blast
  then have tag: "p \<in> set PLATFORM_TAGS" by (rule detectPlatform_tags)
  obtain c w' where c: "extractContent env w u p = (c, w')"
    by (cases "extractContent env w u p")
  from generate_tags [OF tag] obtain msg where
    msg: "generateVerificationMessage p (js_or_str un (js ''suremark_user''))
            (SURMARK_DASHBOARD_URL env) m = Inr msg"
    by blast
  let ?pd = "\<lparr>title = title c, content = content c, author = author c,
              timestamp = timestamp c, url = Some u, platform = Some p,
              suremark_username = un\<rparr>"
  have pu: "processUrl env w u un = (Inr ?pd, w')"
    using assms(1) p c by (simp add: processUrl_def isValidUrl_def)
  have pr: "prepare env w u un m = (Inr (?pd, msg), w')"
    using pu msg assms(2) tags_nonempty [OF tag]
    by (simp add: prepare_def truthy_def js_or_str_def)
  have url: "PostData.url ?pd = Some u"
    by simp
  from extractContent_effect [OF c]
  have eff: "documents w' = documents w \<and> initialized w' = initialized w \<and>
             (\<exists>es. trace w' = trace w @ es \<and> list_all is_fetch es)"
    by auto
  with pr p msg url show ?thesis by blast
qed

lemma postRecord_url:
  "PostData.url pd = Some u \<Longrightarrow> u \<noteq> [] \<Longrightarrow> ProcessedPost.url (postRecord pd now s) = u"
  by (simp add: postRecord_def js_or_str_def)

lemma postRecord_success:
  "ProcessedPost.success (postRecord pd now s) = s"
  by (simp add: postRecord_def)

lemma no_api_in_fetches:
  "list_all is_fetch es \<Longrightarrow> \<not> list_ex is_api_call es"
  by (induction es) (auto elim: is_fetch.elims)

lemma pipeline_dry:
  assumes init: "initialized w" and parse: "parseUrl env u = Some x" and ne: "u \<noteq> []"
    and nofault: "\<forall>h d. insertOneFails env h d = None"
  shows "\<exists>msg w' p. pipeline env w u un m True = (DryRunRecorded msg, w') \<and>
           detectPlatform env u = Inr p \<and>
           generateVerificationMessage p (js_or_str un (js ''suremark_user''))
             (SURMARK_DASHBOARD_URL env) m = Inr msg \<and>
           initialized w' \<and>
           (\<exists>es. trace w' = trace w @ es \<and> \<not> list_ex is_api_call es) \<and>
           (if u \<in> ProcessedPost.url ` set (documents w) then documents w' = documents w
            else \<exists>d. documents w' = documents w @ [d] \<and> ProcessedPost.url d = u \<and>
                     ProcessedPost.success d = Some False)"
proof -
  from prepare_reaches [OF parse ne, of w un m]
  obtain pd msg w2 p es where
    prep: "prepare env w u un m = (Inr (pd, msg), w2)" and
    plat: "detectPlatform env u = Inr p" and
    gen: "generateVerificationMessage p (js_or_str un (js ''suremark_user''))
            (SURMARK_DASHBOARD_URL env) m = Inr msg" and
    purl: "PostData.url pd = Some u" and
    docs2: "documents w2 = documents w" and
    init2: "initialized w2 = initialized w" and
    tr2: "trace w2 = trace w @ es" and
    fetches: "list_all is_fetch es"
    by blast
  let ?doc = "postRecord pd (clock env (trace w2)) (Some False)"
  have durl: "ProcessedPost.url ?doc = u"
    using purl ne by (rule postRecord_url)
  have noapi: "\<not> list_ex is_api_call (es @ [StoreInsert ?doc])"
    using no_api_in_fetches [OF fetches] by simp
  show ?thesis
  proof (cases "u \<in> ProcessedPost.url ` set (documents w)")
    case True
    then have dup: "ProcessedPost.url ?doc \<in> ProcessedPost.url ` set (documents w2)"
      using durl docs2 by simp
    have run: "pipeline env w u un m True
               = (DryRunRecorded msg, w2\<lparr>trace := trace w2 @ [StoreInsert ?doc]\<rparr>)"
      using prep init init2 insertOne_dup [OF dup, of env]
      by (simp add: pipeline_def saveProcessedPost_postRecord)
    have "trace (w2\<lparr>trace := trace w2 @ [StoreInsert ?doc]\<rparr>)
          = trace w @ (es @ [StoreInsert ?doc])"
      using tr2 by simp
    with noapi have "\<exists>es'. trace (w2\<lparr>trace := trace w2 @ [StoreInsert ?doc]\<rparr>)
                      = trace w @ es' \<and> \<not> list_ex is_api_call es'"
      by blast
    with run plat gen True docs2 init init2 show ?thesis
      by simp
  next
    case False
    then have fresh: "ProcessedPost.url ?doc \<notin> ProcessedPost.url ` set (documents w2)"
      using durl docs2 by simp
    have nf: "insertOneFails env (trace w2) ?doc = None"
      using nofault by simp
    let ?w3 = "w2\<lparr>trace := trace w2 @ [StoreInsert ?doc],
                   documents := documents w2 @ [?doc]\<rparr>"
    have run: "pipeline env w u un m True = (DryRunRecorded msg, ?w3)"
      using prep init init2 insertOne_fresh [OF fresh nf]
      by (simp add: pipeline_def saveProcessedPost_postRecord)
    have "trace ?w3 = trace w @ (es @ [StoreInsert ?doc])"
      using tr2 by simp
    with noapi have ev: "\<exists>es'. trace ?w3 = trace w @ es' \<and> \<not> list_ex is_api_call es'"
      by blast
    have "\<exists>d. documents ?w3 = documents w @ [d] \<and> ProcessedPost.url d = u \<and>
               ProcessedPost.success d = Some False"
      using docs2 durl by (simp add: postRecord_success)
    with run plat gen noapi False init init2 ev show ?thesis
      by simp
  qed
qed

lemma holds_success_append:
  "documents w' = documents w @ [d] \<Longrightarrow> ProcessedPost.success d \<noteq> Some True \<Longrightarrow>
   holds_success w' u = holds_success w u"
  by (auto simp: holds_success_def)

lemma holds_success_same:
  "documents w' = documents w \<Longrightarrow> holds_success w' u = holds_success w u"
  by (simp add: holds_success_def)

lemma process_dry:
  assumes init: "initialized w" and parse: "parseUrl env u = Some x" and ne: "u \<noteq> []"
    and nofault: "\<forall>h d. insertOneFails env h d = None"
    and fresh: "\<not> holds_success w u"
  shows "\<exists>msg w' p. process env w u un m True = (DryRunRecorded msg, w') \<and>
           detectPlatform env u = Inr p \<and>
           generateVerificationMessage p (js_or_str un (js ''suremark_user''))
             (SURMARK_DASHBOARD_URL env) m = Inr msg \<and>
           initialized w' \<and> \<not> holds_success w' u \<and>
           u \<in> ProcessedPost.url ` set (documents w') \<and>
           (\<exists>es. trace w' = trace w @ es \<and> \<not> list_ex is_api_call es) \<and>
           (if u \<in> ProcessedPost.url ` set (documents w) then documents w' = documents w
            else \<exists>d. documents w' = documents w @ [d] \<and> ProcessedPost.url d = u \<and>
                     ProcessedPost.success d = Some False)"
proof -
  let ?w1 = "w\<lparr>trace := trace w @ [StoreFind u]\<rparr>"
  have p: "process env w u un m True = pipeline env ?w1 u un m True"
    using init fresh by (simp add: process_init)
  have i1: "initialized ?w1" using init by simp
  from pipeline_dry [OF i1 parse ne nofault, of un m]
  obtain msg w' p es where
    run: "pipeline env ?w1 u un m True = (DryRunRecorded msg, w')" and
    plat: "detectPlatform env u = Inr p" and
    gen: "generateVerificationMessage p (js_or_str un (js ''suremark_user''))
            (SURMARK_DASHBOARD_URL env) m = Inr msg" and
    init': "initialized w'" and
    tr: "trace w' = trace ?w1 @ es" and
    noapi: "\<not> list_ex is_api_call es" and
    docs: "if u \<in> ProcessedPost.url ` set (documents ?w1) then documents w' = documents ?w1
           else \<exists>d. documents w' = documents ?w1 @ [d] \<and> ProcessedPost.url d = u \<and>
                    ProcessedPost.success d = Some False"
    by blast
  have tr': "trace w' = trace w @ (StoreFind u # es)" using tr by simp
  have noapi': "\<not> list_ex is_api_call (StoreFind u # es)" using noapi by simp
  have ev: "\<exists>es'. trace w' = trace w @ es' \<and> \<not> list_ex is_api_call es'"
    using tr' noapi' by blast
  have docs': "if u \<in> ProcessedPost.url ` set (documents w) then documents w' = documents w
           else \<exists>d. documents w' = documents w @ [d] \<and> ProcessedPost.url d = u \<and>
                    ProcessedPost.success d = Some False"
    using docs by (simp split: if_splits)
  have still: "\<not> holds_success w' u"
    using docs' fresh holds_success_same [of w' w u] holds_success_append [of w' w _ u]
    by (auto split: if_splits)
  have stored: "u \<in> ProcessedPost.url ` set (documents w')"
    using docs' by (auto split: if_splits)
  from p run plat gen init' still stored ev docs' show ?thesis
    by simp
qed

lemma process_unparsable:
  "parseUrl env u = None \<Longrightarrow> initialized w \<Longrightarrow>
   process env w u username msg dryRun
   = (if \<not> findOneFails env (trace w) u \<and> holds_success w u
      then AlreadyProcessed else Thrown InvalidUrl,
      w\<lparr>trace := trace w @ [StoreFind u]\<rparr>)"
  by (simp add: process_init pipeline_def prepare_invalid)









lemma process_ok:
  assumes init: "initialized w" and parse: "parseUrl env u = Some x" and ne: "u \<noteq> []"
    and nofault: "\<forall>h d. insertOneFails env h d = None"
    and fresh: "u \<notin> ProcessedPost.url ` set (documents w)"
    and live: "dry \<or>
      ((\<forall>h msg r. \<exists>i. v2tweet env h msg r = TweetData i) \<and>
       (\<forall>p \<in> set PLATFORM_TAGS. \<forall>msg.
          generateVerificationMessage p (js_or_str un (js ''suremark_user''))
            (SURMARK_DASHBOARD_URL env) None = Inr msg \<longrightarrow> length msg \<le> MAX_TWEET_LENGTH))"
  shows "\<exists>out w' d. process env w u un None dry = (out, w') \<and>
           (\<forall>c. tally out c = c\<lparr>processed := processed c + 1\<rparr>) \<and>
           initialized w' \<and> documents w' = documents w @ [d] \<and>
           ProcessedPost.url d = u \<and> ProcessedPost.success d = Some (\<not> dry)"
proof (cases dry)
  case True
  have nh: "\<not> holds_success w u"
    using fresh holds_success_no_docs by blast
  from process_dry [OF init parse ne nofault nh, of un None] fresh
  obtain msg w' d where "process env w u un None True = (DryRunRecorded msg, w')"
    "initialized w'" "documents w' = documents w @ [d]" "ProcessedPost.url d = u"
    "ProcessedPost.success d = Some False"
    by (auto split: if_splits)
  with True show ?thesis
    by (auto simp: tally_def)
next
  case False
  with live have api: "\<forall>h msg r. \<exists>i. v2tweet env h msg r = TweetData i"
    and short: "\<forall>p \<in> set PLATFORM_TAGS. \<forall>msg.
          generateVerificationMessage p (js_or_str un (js ''suremark_user''))
            (SURMARK_DASHBOARD_URL env) None = Inr msg \<longrightarrow> length msg \<le> MAX_TWEET_LENGTH"
    by auto
  have nh: "\<not> holds_success w u"
    using fresh holds_success_no_docs by blast
  let ?w1 = "w\<lparr>trace := trace w @ [StoreFind u]\<rparr>"
  have p: "process env w u un None False = pipeline env ?w1 u un None False"
    using init nh by (simp add: process_init)
  from prepare_reaches [OF parse ne, of ?w1 un None]
  obtain pd msg w2 p where
    prep: "prepare env ?w1 u un None = (Inr (pd, msg), w2)" and
    plat: "detectPlatform env u = Inr p" and
    gen: "generateVerificationMessage p (js_or_str un (js ''suremark_user''))
            (SURMARK_DASHBOARD_URL env) None = Inr msg" and
    purl: "PostData.url pd = Some u" and
    docs2: "documents w2 = documents ?w1" and
    init2: "initialized w2 = initialized ?w1"
    by blast
  have len: "\<not> length msg > MAX_TWEET_LENGTH"
    using short gen detectPlatform_tags [OF plat] by fastforce
  from api obtain i where rep: "v2tweet env (trace w2) msg None = TweetData i"
    by blast
  let ?w3 = "w2\<lparr>trace := trace w2 @ [ApiTweet msg None]\<rparr>"
  let ?r = "\<lparr>TweetResult.success = True, tweet_id = Some i,
             tweet_url = Some (js ''https://twitter.com/user/status/'' @ i),
             message = Some TWEET_POSTED, error = None, retry_after = None\<rparr>"
  have post: "postTweet env w2 msg None = (?r, ?w3)"
    using len rep by (simp add: postTweet_def truthy_def)
  let ?d = "(postRecord pd (clock env (trace ?w3)) (Some True))
              \<lparr>tweet := Some (tweet_id ?r, tweet_url ?r, clock env (trace ?w3))\<rparr>"
  have durl: "ProcessedPost.url ?d = u"
    using purl by (simp add: postRecord_def js_or_str_def)
  have dfresh: "ProcessedPost.url ?d \<notin> ProcessedPost.url ` set (documents ?w3)"
    using durl fresh docs2 by simp
  have nf: "insertOneFails env (trace ?w3) ?d = None"
    using nofault by blast
  have init3: "initialized ?w3"
    using init init2 by simp
  let ?w4 = "?w3\<lparr>trace := trace ?w3 @ [StoreInsert ?d], documents := documents ?w3 @ [?d]\<rparr>"
  have save: "saveSuccessfulPost env ?w3 (postRecord pd (clock env (trace ?w3)) None)
                (tweet_id ?r) (tweet_url ?r) = (Inr (), ?w4)"
    using insertOne_fresh [OF dfresh nf] init3
    by (simp add: saveSuccessfulPost_postRecord)
  have run: "pipeline env ?w1 u un None False
             = (Posted (tweet_url ?r) (tweet_id ?r), ?w4)"
    using prep post save by (simp add: pipeline_def)
  have "initialized ?w4" "documents ?w4 = documents w @ [?d]"
    "ProcessedPost.success ?d = Some True"
    using init3 docs2 by (simp_all add: postRecord_def)
  with p run durl False show ?thesis
    by (auto simp: tally_def)
qed

lemma batchItem_ok:
  assumes "initialized w" and "parseUrl env u = Some x" and "u \<noteq> []"
    and "\<forall>h d. insertOneFails env h d = None"
    and "u \<notin> ProcessedPost.url ` set (documents w)"
    and "dry \<or>
      ((\<forall>h msg r. \<exists>i. v2tweet env h msg r = TweetData i) \<and>
       (\<forall>p \<in> set PLATFORM_TAGS. \<forall>msg.
          generateVerificationMessage p (js_or_str un (js ''suremark_user''))
            (SURMARK_DASHBOARD_URL env) None = Inr msg \<longrightarrow> length msg \<le> MAX_TWEET_LENGTH))"
  shows "\<exists>w' d. batchItem env n un delay dry u (c, w)
                 = (c\<lparr>processed := processed c + 1\<rparr>, w') \<and>
           initialized w' \<and> documents w' = documents w @ [d] \<and>
           ProcessedPost.url d = u \<and> ProcessedPost.success d = Some (\<not> dry)"
proof -
  from process_ok [OF assms]
  obtain out w' d where run: "process env w u un None dry = (out, w')"
    and t: "tally out c = c\<lparr>processed := processed c + 1\<rparr>"
    and rest: "initialized w'" "documents w' = documents w @ [d]"
      "ProcessedPost.url d = u" "ProcessedPost.success d = Some (\<not> dry)"
    by blast
  let ?b = "batchItem env n un delay dry u (c, w)"
  have "fst ?b = c\<lparr>processed := processed c + 1\<rparr>"
    using batchItem_tally [of env n un delay dry u c w] run t by simp
  moreover have "initialized (snd ?b)" "documents (snd ?b) = documents w @ [d]"
    using batchItem_initialized [of env n un delay dry u c w]
      batchItem_documents [of env n un delay dry u c w] run rest by simp_all
  ultimately have "?b = (c\<lparr>processed := processed c + 1\<rparr>, snd ?b) \<and>
      initialized (snd ?b) \<and> documents (snd ?b) = documents w @ [d]"
    by (simp add: prod_eq_iff)
  with rest show ?thesis by blast
qed

lemma batchItem_unparsable:
  assumes "parseUrl env u = None" and "initialized w" and "\<not> holds_success w u"
  shows "\<exists>w'. batchItem env n un delay dry u (c, w) = (c\<lparr>failed := failed c + 1\<rparr>, w') \<and>
           initialized w' \<and> documents w' = documents w"
proof -
  have run: "process env w u un None dry
             = (Thrown InvalidUrl, w\<lparr>trace := trace w @ [StoreFind u]\<rparr>)"
    using process_unparsable [OF assms(1,2)] assms(3) by simp
  let ?b = "batchItem env n un delay dry u (c, w)"
  have "fst ?b = c\<lparr>failed := failed c + 1\<rparr>"
    using batchItem_tally [of env n un delay dry u c w] run by (simp add: tally_def)
  moreover have "initialized (snd ?b)" "documents (snd ?b) = documents w"
    using batchItem_initialized [of env n un delay dry u c w]
      batchItem_documents [of env n un delay dry u c w] run assms(2) by simp_all
  ultimately have "?b = (c\<lparr>failed := failed c + 1\<rparr>, snd ?b) \<and>
      initialized (snd ?b) \<and> documents (snd ?b) = documents w"
    by (simp add: prod_eq_iff)
  then show ?thesis by blast
qed

lemma tally_total:
  "processed (tally out c) + skipped (tally out c) + failed (tally out c)
   = processed c + skipped c + failed c + 1"
  by (cases out) (simp_all add: tally_def)

lemma batchLoop_total:
  "processed (fst (batchLoop env n un delay dry us cw))
   + skipped (fst (batchLoop env n un delay dry us cw))
   + failed (fst (batchLoop env n un delay dry us cw))
   = processed (fst cw) + skipped (fst cw) + failed (fst cw) + length us"
proof (induction us arbitrary: cw)
  case Nil
  show ?case by simp
next
  case (Cons u us)
  obtain c w where cw: "cw = (c, w)" by (cases cw)
  have "processed (fst (batchItem env n un delay dry u cw))
        + skipped (fst (batchItem env n un delay dry u cw))
        + failed (fst (batchItem env n un delay dry u cw))
        = processed (fst cw) + skipped (fst cw) + failed (fst cw) + 1"
    using batchItem_tally [of env n un delay dry u c w] tally_total cw by simp
  with Cons.IH [of "batchItem env n un delay dry u cw"] show ?case
    by simp
qed





lemma batchItem_item_step:
  "batchItem env n un delay dry u cw = item_step env n un delay dry u cw"
  by (auto simp: batchItem_def item_step_def process_def pipeline_def tally_def pauses_def
      split: prod.splits sum.splits if_splits)

lemma batchLoop_foldl:
  "batchLoop env n un delay dry us cw
   = foldl (\<lambda>cw u. item_step env n un delay dry u cw) cw us"
  by (induction us arbitrary: cw) (simp_all add: batchItem_item_step)

lemma runBatch_in_order:
  "runBatch env w urls un delay dry
   = foldl (\<lambda>cw u. item_step env (length urls) un delay dry u cw)
       (\<lparr>processed = 0, skipped = 0, failed = 0\<rparr>, w) urls"
  by (simp add: runBatch_def batchLoop_foldl)

text \<open>The definitions that evaluation on a concrete input unfolds.\<close>

lemmas model_defs =
  process_def pipeline_def prepare_def isPostProcessed_def processUrl_def
  isValidUrl_def detectPlatform_def extractContent_def extractTwitterContent_def
  extractTweetId_def generateVerificationMessage_def postTweet_def saveSuccessfulPost_def
  saveProcessedPost_def insertOne_def postRecord_def Let_def truthy_def js_or_def
  js_or_str_def js_includes_def js_replace_def toLowerCase_def SUPPORTED_PLATFORMS_def
  PLATFORM_SPECIFIC_def PLATFORM_SPECIFIC_twitter_def
  PLATFORM_SPECIFIC_instagram_def PLATFORM_SPECIFIC_youtube_def PLATFORM_SPECIFIC_website_def
  PLATFORM_SPECIFIC_article_def MAX_TWEET_LENGTH_def TWEET_POSTED_def RATE_LIMIT_def
  TWEET_TOO_LONG_def js_def

lemmas sample_defs =
  sample_env_def sample_parse_def stored_world_def fresh_world_def sample_record_def


section \<open>The idempotency check\<close>

text \<open>
  C1. When the database handle is initialized and the existence query answers, a stored
  record for exactly \<open>u\<close> with \<^verbatim>\<open>success = true\<close> makes the run end as \<open>AlreadyProcessed\<close>
  (the duplicate-post exit) with the query as its only effect: no fetch, no posting
  call, no write. When no such record is stored, whatever else is stored for \<open>u\<close>, the
  run never ends as \<open>AlreadyProcessed\<close>.
\<close>

theorem idempotency_short_circuit:
  "(initialized w \<and> \<not> findOneFails env (trace w) u \<and> holds_success w u \<longrightarrow>
      process env w u username msg dryRun
      = (AlreadyProcessed, w\<lparr>trace := trace w @ [StoreFind u]\<rparr>))
   \<and> (\<not> holds_success w u \<longrightarrow> fst (process env w u username msg dryRun) \<noteq> AlreadyProcessed)"
proof (intro conjI impI)
  assume "initialized w \<and> \<not> findOneFails env (trace w) u \<and> holds_success w u"
  then show "process env w u username msg dryRun
             = (AlreadyProcessed, w\<lparr>trace := trace w @ [StoreFind u]\<rparr>)"
    by (simp add: process_init)
next
  assume no: "\<not> holds_success w u"
  show "fst (process env w u username msg dryRun) \<noteq> AlreadyProcessed"
  proof (cases "initialized w")
    case True
    with no show ?thesis by (simp add: process_init pipeline_not_already)
  next
    case False
    then show ?thesis by (simp add: process_uninit)
  qed
qed

theorem idempotency_short_circuit_witness:
  "initialized stored_world
   \<and> \<not> findOneFails sample_env (trace stored_world) (js ''https://twitter.com/a/status/7'')
   \<and> holds_success stored_world (js ''https://twitter.com/a/status/7'')
   \<and> process sample_env stored_world (js ''https://twitter.com/a/status/7'') None None False
     = (AlreadyProcessed,
        stored_world\<lparr>trace := [StoreFind (js ''https://twitter.com/a/status/7'')]\<rparr>)
   \<and> \<not> holds_success stored_world (js ''https://twitter.com/b/status/8'')
   \<and> fst (process sample_env stored_world (js ''https://twitter.com/b/status/8'') None None False)
     \<noteq> AlreadyProcessed"
proof -
  have h: "initialized stored_world
     \<and> \<not> findOneFails sample_env (trace stored_world) (js ''https://twitter.com/a/status/7'')
     \<and> holds_success stored_world (js ''https://twitter.com/a/status/7'')"
    by (simp add: stored_world_def sample_env_def holds_success_def sample_record_def)
  have n: "\<not> holds_success stored_world (js ''https://twitter.com/b/status/8'')"
    by (simp add: stored_world_def holds_success_def sample_record_def js_def)
  have t: "trace stored_world = []"
    by (simp add: stored_world_def)
  show ?thesis
    using h n t
      idempotency_short_circuit [of stored_world sample_env "js ''https://twitter.com/a/status/7''"
        None None False]
      idempotency_short_circuit [of stored_world sample_env "js ''https://twitter.com/b/status/8''"
        None None False]
    by simp
qed

text \<open>
  C10. When the existence query throws, \<open>isPostProcessed\<close> answers \<^verbatim>\<open>false\<close>, exactly as
  it does on a store without documents, and the run goes on with extraction and posting
  whatever the store holds.
\<close>

theorem idempotency_check_fails_open:
  "initialized w \<Longrightarrow> findOneFails env (trace w) u \<Longrightarrow>
   isPostProcessed env w u = (Inr False, w\<lparr>trace := trace w @ [StoreFind u]\<rparr>)
   \<and> fst (isPostProcessed env w u) = fst (isPostProcessed env (w\<lparr>documents := []\<rparr>) u)
   \<and> process env w u username msg dryRun
     = pipeline env (w\<lparr>trace := trace w @ [StoreFind u]\<rparr>) u username msg dryRun"
  by (simp add: isPostProcessed_init process_init holds_success_def)

theorem idempotency_check_fails_open_witness:
  "initialized stored_world
   \<and> findOneFails (sample_env\<lparr>findOneFails := \<lambda>h u. True\<rparr>) (trace stored_world)
       (js ''https://twitter.com/a/status/7'')
   \<and> holds_success stored_world (js ''https://twitter.com/a/status/7'')
   \<and> isPostProcessed (sample_env\<lparr>findOneFails := \<lambda>h u. True\<rparr>) stored_world
       (js ''https://twitter.com/a/status/7'')
     = (Inr False, stored_world\<lparr>trace := [StoreFind (js ''https://twitter.com/a/status/7'')]\<rparr>)
   \<and> fst (process (sample_env\<lparr>findOneFails := \<lambda>h u. True\<rparr>) stored_world
            (js ''https://twitter.com/a/status/7'') None None False)
     = Posted (Some (js ''https://twitter.com/user/status/1001'')) (Some (js ''1001''))"
proof -
  let ?env = "sample_env\<lparr>findOneFails := \<lambda>h u. True\<rparr>"
  let ?u = "js ''https://twitter.com/a/status/7''"
  have i: "initialized stored_world"
    by (simp add: stored_world_def)
  have f: "findOneFails ?env (trace stored_world) ?u"
    by simp
  have h: "holds_success stored_world ?u"
    by (simp add: holds_success_def stored_world_def sample_record_def)
  have t: "trace stored_world = []"
    by (simp add: stored_world_def)
  have run: "fst (pipeline ?env (stored_world\<lparr>trace := [StoreFind ?u]\<rparr>) ?u None None False)
             = Posted (Some (js ''https://twitter.com/user/status/1001'')) (Some (js ''1001''))"
    by (simp add: model_defs sample_defs)
  show ?thesis
    using idempotency_check_fails_open [OF i f, of None None False] i f h t run
    by simp
qed


section \<open>Input validation\<close>

text \<open>
  C3, as the claim states it, fails: the run on a string that does not parse as a URL
  queries the store before it validates.
\<close>

theorem validation_after_store_read:
  "fst (process sample_env fresh_world (js ''not a url'') None None False) = Thrown InvalidUrl
   \<and> trace fresh_world = []
   \<and> trace (snd (process sample_env fresh_world (js ''not a url'') None None False))
     = [StoreFind (js ''not a url'')]"
proof -
  have p: "parseUrl sample_env (js ''not a url'') = None"
    by (simp add: sample_env_def sample_parse_def js_def)
  have i: "initialized fresh_world"
    by (simp add: fresh_world_def)
  have h: "\<not> holds_success fresh_world (js ''not a url'')"
    by (simp add: holds_success_def fresh_world_def)
  show ?thesis
    using process_unparsable [OF p i, of None None False] h
    by (simp add: fresh_world_def)
qed

text \<open>
  C3, amended. On a string that does not parse as a URL the run first asks the store
  for a successful record of that string; it ends as \<open>AlreadyProcessed\<close> when the query
  finds one and with the invalid-URL error otherwise. The query is the only effect: no
  write, no fetch, no posting call.
\<close>

theorem unparsable_input_rejected:
  "parseUrl env u = None \<Longrightarrow> initialized w \<Longrightarrow>
   process env w u username msg dryRun
   = (if \<not> findOneFails env (trace w) u \<and> holds_success w u
      then AlreadyProcessed else Thrown InvalidUrl,
      w\<lparr>trace := trace w @ [StoreFind u]\<rparr>)"
  by (rule process_unparsable)

theorem unparsable_input_rejected_witness:
  "parseUrl sample_env (js ''not a url'') = None \<and> initialized stored_world
   \<and> process sample_env stored_world (js ''not a url'') None None True
     = (Thrown InvalidUrl, stored_world\<lparr>trace := [StoreFind (js ''not a url'')]\<rparr>)"
proof -
  have p: "parseUrl sample_env (js ''not a url'') = None"
    by (simp add: sample_env_def sample_parse_def js_def)
  have i: "initialized stored_world"
    by (simp add: stored_world_def)
  have h: "\<not> holds_success stored_world (js ''not a url'')"
    by (simp add: holds_success_def stored_world_def sample_record_def js_def)
  have t: "trace stored_world = []"
    by (simp add: stored_world_def)
  show ?thesis
    using unparsable_input_rejected [OF p i, of None None True] p i h t
    by simp
qed


section \<open>Dry runs\<close>

text \<open>
  C4. On an initialized handle, for a non-empty URL that parses and has no successful
  record, with a store whose inserts do not fault, a dry run ends as \<open>DryRunRecorded\<close>
  without any posting call; it appends a record with \<^verbatim>\<open>success = false\<close> when no record of
  the URL was stored and leaves the store as it is otherwise. A second dry run right
  after it ends as \<open>DryRunRecorded\<close> with the same message, again without a posting call
  and without changing the store: the duplicate-key error of its insert is absorbed.
\<close>

theorem dry_run_records_without_posting:
  assumes "initialized w" and "parseUrl env u = Some x" and "u \<noteq> []"
    and "\<forall>h d. insertOneFails env h d = None"
    and "\<not> holds_success w u"
  shows "\<exists>msg w1 w2.
           process env w u username m True = (DryRunRecorded msg, w1)
           \<and> (\<exists>es. trace w1 = trace w @ es \<and> \<not> list_ex is_api_call es)
           \<and> (if u \<in> ProcessedPost.url ` set (documents w) then documents w1 = documents w
              else \<exists>d. documents w1 = documents w @ [d] \<and> ProcessedPost.url d = u \<and>
                       ProcessedPost.success d = Some False)
           \<and> \<not> holds_success w1 u
           \<and> process env w1 u username m True = (DryRunRecorded msg, w2)
           \<and> (\<exists>es. trace w2 = trace w1 @ es \<and> \<not> list_ex is_api_call es)
           \<and> documents w2 = documents w1"
proof -
  from process_dry [OF assms, of username m]
  obtain msg w1 p where
    run1: "process env w u username m True = (DryRunRecorded msg, w1)" and
    plat: "detectPlatform env u = Inr p" and
    gen: "generateVerificationMessage p (js_or_str username (js ''suremark_user''))
            (SURMARK_DASHBOARD_URL env) m = Inr msg" and
    init1: "initialized w1" and
    fresh1: "\<not> holds_success w1 u" and
    stored: "u \<in> ProcessedPost.url ` set (documents w1)" and
    ev1: "\<exists>es. trace w1 = trace w @ es \<and> \<not> list_ex is_api_call es" and
    docs1: "if u \<in> ProcessedPost.url ` set (documents w) then documents w1 = documents w
            else \<exists>d. documents w1 = documents w @ [d] \<and> ProcessedPost.url d = u \<and>
                     ProcessedPost.success d = Some False"
    by blast
  from process_dry [OF init1 assms(2) assms(3) assms(4) fresh1, of username m]
  obtain msg' w2 p' where
    run2: "process env w1 u username m True = (DryRunRecorded msg', w2)" and
    plat': "detectPlatform env u = Inr p'" and
    gen': "generateVerificationMessage p' (js_or_str username (js ''suremark_user''))
            (SURMARK_DASHBOARD_URL env) m = Inr msg'" and
    ev2: "\<exists>es. trace w2 = trace w1 @ es \<and> \<not> list_ex is_api_call es" and
    docs2: "if u \<in> ProcessedPost.url ` set (documents w1) then documents w2 = documents w1
            else \<exists>d. documents w2 = documents w1 @ [d] \<and> ProcessedPost.url d = u \<and>
                     ProcessedPost.success d = Some False"
    by blast
  from plat plat' gen gen' have same: "msg' = msg" by simp
  from docs2 stored have keep: "documents w2 = documents w1" by simp
  from run1 ev1 docs1 fresh1 run2 same ev2 keep show ?thesis
    by blast
qed

theorem dry_run_records_without_posting_witness:
  "initialized fresh_world
   \<and> parseUrl sample_env (js ''https://twitter.com/a/status/7'')
     = Some \<lparr>hostname = js ''twitter.com'', pathname = js ''/a/status/7''\<rparr>
   \<and> js ''https://twitter.com/a/status/7'' \<noteq> []
   \<and> (\<forall>h d. insertOneFails sample_env h d = None)
   \<and> \<not> holds_success fresh_world (js ''https://twitter.com/a/status/7'')
   \<and> (\<exists>msg w1 w2.
         process sample_env fresh_world (js ''https://twitter.com/a/status/7'') None None True
         = (DryRunRecorded msg, w1)
         \<and> (\<exists>es. trace w1 = trace fresh_world @ es \<and> \<not> list_ex is_api_call es)
         \<and> (\<exists>d. documents w1 = documents fresh_world @ [d]
                 \<and> ProcessedPost.url d = js ''https://twitter.com/a/status/7''
                 \<and> ProcessedPost.success d = Some False)
         \<and> process sample_env w1 (js ''https://twitter.com/a/status/7'') None None True
           = (DryRunRecorded msg, w2)
         \<and> documents w2 = documents w1)"
proof -
  let ?u = "js ''https://twitter.com/a/status/7''"
  have i: "initialized fresh_world"
    by (simp add: fresh_world_def)
  have p: "parseUrl sample_env ?u
           = Some \<lparr>hostname = js ''twitter.com'', pathname = js ''/a/status/7''\<rparr>"
    by (simp add: sample_env_def sample_parse_def js_def)
  have n: "?u \<noteq> []"
    by (simp add: js_def)
  have f: "\<forall>h d. insertOneFails sample_env h d = None"
    by (simp add: sample_env_def)
  have h: "\<not> holds_success fresh_world ?u"
    by (simp add: holds_success_def fresh_world_def)
  have e: "?u \<notin> ProcessedPost.url ` set (documents fresh_world)"
    by (simp add: fresh_world_def)
  from dry_run_records_without_posting [OF i p n f h, of None None] e
  have "\<exists>msg w1 w2.
         process sample_env fresh_world ?u None None True = (DryRunRecorded msg, w1)
         \<and> (\<exists>es. trace w1 = trace fresh_world @ es \<and> \<not> list_ex is_api_call es)
         \<and> (\<exists>d. documents w1 = documents fresh_world @ [d]
                 \<and> ProcessedPost.url d = ?u \<and> ProcessedPost.success d = Some False)
         \<and> process sample_env w1 ?u None None True = (DryRunRecorded msg, w2)
         \<and> documents w2 = documents w1"
    by (simp split: if_splits) blast
  with i p n f h show ?thesis
    by blast
qed


section \<open>Posting\<close>




section \<open>The microblog strategy\<close>

lemma indexOf_segment:
  "(case indexOf parts (js ''status'') of
      None \<Rightarrow> None
    | Some i \<Rightarrow>
        if i + 1 < length parts
        then (let t = parts ! (i + 1) in if t \<noteq> [] then Some t else None)
        else None) = segment_after_status parts"
proof (induction parts rule: segment_after_status.induct)
  case 1
  show ?case by simp
next
  case (2 p)
  show ?case by simp
next
  case (3 p q ps)
  show ?case
  proof (cases "p = js ''status''")
    case True
    then show ?thesis by simp
  next
    case False
    with 3 show ?thesis
      by (simp add: option.case_eq_if split: if_splits)
  qed
qed

lemma extractTweetId_segment:
  "extractTweetId env u =
     (case parseUrl env u of
        None \<Rightarrow> None
      | Some urlObj \<Rightarrow> segment_after_status (js_split 0x2F (pathname urlObj)))"
proof (cases "parseUrl env u")
  case None
  then show ?thesis by (simp add: extractTweetId_def)
next
  case (Some urlObj)
  show ?thesis
    using indexOf_segment [of "js_split 0x2F (pathname urlObj)"] Some
    by (simp add: extractTweetId_def Let_def)
qed

text \<open>
  C7. The microblog strategy always returns a record and leaves the world as it found
  it: no fetch, no event of any kind. The content embeds the path segment that follows
  the first \<^verbatim>\<open>status\<close> segment when that segment exists and is not empty; in every other
  case, also when the URL does not parse, it is the generic microblog placeholder.
\<close>

theorem microblog_strategy:
  "extractTwitterContent env w u =
     (\<lparr>title = Some (js ''X/Twitter Post''),
       content =
         Some (case (case parseUrl env u of
                       None \<Rightarrow> None
                     | Some urlObj \<Rightarrow> segment_after_status (js_split 0x2F (pathname urlObj))) of
                 Some tweetId \<Rightarrow> js ''Post from X/Twitter (ID: '' @ tweetId @ js '')''
               | None \<Rightarrow> js ''Verified content from X/Twitter''),
       author = None,
       timestamp = Some (clock env (trace w))\<rparr>, w)"
  unfolding extractTwitterContent_def extractTweetId_segment
  by (simp split: option.splits)

theorem microblog_strategy_witness:
  "extractTwitterContent sample_env fresh_world (js ''https://x.example/user/status/42'')
   = (\<lparr>title = Some (js ''X/Twitter Post''),
       content = Some (js ''Post from X/Twitter (ID: 42)''),
       author = None,
       timestamp = Some 0\<rparr>, fresh_world)
   \<and> extractTwitterContent sample_env fresh_world (js ''https://x.example/user'')
   = (\<lparr>title = Some (js ''X/Twitter Post''),
       content = Some (js ''Verified content from X/Twitter''),
       author = None,
       timestamp = Some 0\<rparr>, fresh_world)"
  using microblog_strategy [of sample_env fresh_world "js ''https://x.example/user/status/42''"]
    microblog_strategy [of sample_env fresh_world "js ''https://x.example/user''"]
  by (simp add: sample_env_def sample_parse_def fresh_world_def js_def)


section \<open>The fetch-based strategies\<close>

text \<open>
  C5. When the fetch (or anything in the parse after it) throws, the generic strategy,
  which every platform tag other than the three named ones dispatches to, returns the
  fixed title and content with the clock reading taken after the fetch; the fetch is
  the only event.
\<close>

theorem website_fail_soft:
  "axiosGet env (trace w) u = None \<Longrightarrow>
   p \<noteq> js ''twitter'' \<Longrightarrow> p \<noteq> js ''instagram'' \<Longrightarrow> p \<noteq> js ''youtube'' \<Longrightarrow>
   extractContent env w u p = extractWebsiteContent env w u
   \<and> extractWebsiteContent env w u
     = (\<lparr>title = Some (js ''Website Content''),
         content = Some (js ''Content from website''),
         author = None,
         timestamp = Some (clock env (trace w @ [HttpGet u]))\<rparr>,
        w\<lparr>trace := trace w @ [HttpGet u]\<rparr>)"
  by (simp add: extractContent_def extractWebsiteContent_def)

theorem website_fail_soft_witness:
  "axiosGet sample_env (trace fresh_world) (js ''https://x.example/user'') = None
   \<and> js ''website'' \<noteq> js ''twitter'' \<and> js ''website'' \<noteq> js ''instagram''
   \<and> js ''website'' \<noteq> js ''youtube''
   \<and> extractContent sample_env fresh_world (js ''https://x.example/user'') (js ''website'')
     = (\<lparr>title = Some (js ''Website Content''),
         content = Some (js ''Content from website''),
         author = None,
         timestamp = Some 1\<rparr>,
        fresh_world\<lparr>trace := [HttpGet (js ''https://x.example/user'')]\<rparr>)"
proof -
  have a: "axiosGet sample_env (trace fresh_world) (js ''https://x.example/user'') = None"
    by (simp add: sample_env_def)
  have n: "js ''website'' \<noteq> js ''twitter''" "js ''website'' \<noteq> js ''instagram''"
    "js ''website'' \<noteq> js ''youtube''"
    by (simp_all add: js_def)
  have t: "trace fresh_world = []" "clock sample_env = length"
    by (simp_all add: fresh_world_def sample_env_def)
  show ?thesis
    using website_fail_soft [OF a n] a n t by simp
qed

text \<open>
  The generic and the video strategies cut the title at 100 and the content at 1000 code
  units; the image strategy cuts the content only.
\<close>

lemma fallback_lengths:
  "length (js ''Website Content'') \<le> DEFAULT_TITLE_LENGTH"
  "length (js ''Content from website'') \<le> MAX_CONTENT_LENGTH"
  "length (js ''YouTube Video'') \<le> DEFAULT_TITLE_LENGTH"
  "length (js ''Content from YouTube'') \<le> MAX_CONTENT_LENGTH"
  "length (js ''Content from Instagram'') \<le> MAX_CONTENT_LENGTH"
  by (simp_all add: js_def DEFAULT_TITLE_LENGTH_def MAX_CONTENT_LENGTH_def)

lemma website_truncation:
  assumes "extractWebsiteContent env w u = (c, w')"
  shows "(\<forall>t. title c = Some t \<longrightarrow> length t \<le> DEFAULT_TITLE_LENGTH)
         \<and> (\<forall>b. content c = Some b \<longrightarrow> length b \<le> MAX_CONTENT_LENGTH)"
  using assms fallback_lengths
  by (auto simp: extractWebsiteContent_def Let_def split: option.splits if_splits)

lemma youtube_truncation:
  assumes "extractYouTubeContent env w u = (c, w')"
  shows "(\<forall>t. title c = Some t \<longrightarrow> length t \<le> DEFAULT_TITLE_LENGTH)
         \<and> (\<forall>b. content c = Some b \<longrightarrow> length b \<le> MAX_CONTENT_LENGTH)"
  using assms fallback_lengths
  by (auto simp: extractYouTubeContent_def Let_def split: option.splits if_splits)

lemma instagram_content_truncation:
  assumes "extractInstagramContent env w u = (c, w')"
  shows "\<forall>b. content c = Some b \<longrightarrow> length b \<le> MAX_CONTENT_LENGTH"
  using assms fallback_lengths
  by (auto simp: extractInstagramContent_def Let_def split: option.splits if_splits)

lemma indexOfStr_absent:
  "c \<notin> set s \<Longrightarrow> indexOfStr (c # rest) s = None"
  by (induction s) auto

lemma instagram_title:
  assumes "axiosGet env (trace w) u = Some d"
    and "attr_of d (MetaProperty ''og:title'') ''content'' = Some t"
    and "t \<noteq> []" and "0x20 \<notin> set t"
  shows "title (fst (extractInstagramContent env w u)) = Some (js ''Instagram Post by '' @ t)"
proof -
  have "js '' on Instagram'' = 0x20 # js ''on Instagram''"
    by (simp add: js_def)
  with assms(4) have "split_head (js '' on Instagram'') t = t"
    by (simp add: split_head_def indexOfStr_absent)
  with assms(1,2,3) show ?thesis
    by (simp add: extractInstagramContent_def Let_def js_or_def truthy_def)
qed

text \<open>
  C8 does not hold for the image strategy: its title is the text \<^verbatim>\<open>Instagram Post by\<close>
  followed by the author, and the author is not cut. An open-graph title of 120 letters
  gives a title of 138 code units.
\<close>

theorem instagram_title_untruncated:
  "title (fst (extractInstagramContent
                 (sample_env\<lparr>axiosGet := \<lambda>h u. Some long_title_page\<rparr>)
                 fresh_world (js ''https://instagram.com/p/1'')))
   = Some (js ''Instagram Post by '' @ replicate 120 0x61)
   \<and> length (js ''Instagram Post by '' @ replicate 120 0x61) = 138
   \<and> DEFAULT_TITLE_LENGTH = 100"
proof -
  let ?env = "sample_env\<lparr>axiosGet := \<lambda>h u. Some long_title_page\<rparr>"
  have a: "axiosGet ?env (trace fresh_world) (js ''https://instagram.com/p/1'')
           = Some long_title_page"
    by simp
  have b: "attr_of long_title_page (MetaProperty ''og:title'') ''content''
           = Some (replicate 120 0x61)"
    by (simp add: long_title_page_def)
  have c: "replicate 120 (0x61 :: 16 word) \<noteq> []" "(0x20 :: 16 word) \<notin> set (replicate 120 0x61)"
    by simp_all
  show ?thesis
    using instagram_title [OF a b c]
    by (simp add: js_def DEFAULT_TITLE_LENGTH_def)
qed


section \<open>Message composition\<close>

lemma indexOfStr_first:
  "c \<notin> set a \<Longrightarrow> indexOfStr (c # rest) (a @ c # rest @ b) = Some (length a)"
  by (induction a) auto

lemma indexOfStr_occurs:
  "indexOfStr pat s = Some i \<Longrightarrow> set pat \<subseteq> set s"
proof (induction s arbitrary: i)
  case Nil
  then show ?case by (simp split: if_splits)
next
  case (Cons x xs)
  show ?case
  proof (cases "take (length pat) (x # xs) = pat")
    case True
    then have "set pat = set (take (length pat) (x # xs))" by simp
    then show ?thesis using set_take_subset by fastforce
  next
    case False
    with Cons.prems obtain j where "indexOfStr pat xs = Some j"
      by auto
    from Cons.IH [OF this] show ?thesis by auto
  qed
qed

lemma getSubstitution_plain:
  "0x24 \<notin> set rep \<Longrightarrow> getSubstitution matched before after rep = rep"
  by (induction matched before after rep rule: getSubstitution.induct) auto

lemma js_replace_plain:
  "0x24 \<notin> set rep \<Longrightarrow> js_replace s pat rep = replace_first s pat rep"
  by (simp add: js_replace_def replace_first_def getSubstitution_plain split: option.splits)

lemma replace_first_at:
  "c \<notin> set a \<Longrightarrow> replace_first (a @ (c # rest) @ b) (c # rest) rep = a @ rep @ b"
  by (simp add: replace_first_def indexOfStr_first)

lemma absent_unit_not_found:
  assumes "c \<notin> set s" and "c \<in> set pat"
  shows "indexOfStr pat s = None"
proof (cases "indexOfStr pat s")
  case None
  then show ?thesis .
next
  case (Some i)
  from indexOfStr_occurs [OF Some] assms show ?thesis by blast
qed

lemma no_brace_no_placeholder:
  assumes "0x7B \<notin> set s"
  shows "\<not> js_includes s (js ''{dashboard_url}'')
         \<and> \<not> js_includes s (js ''@'' @ js ''{suremark_username}'')"
proof -
  have a: "0x7B \<in> set (js ''{dashboard_url}'')"
    by (simp add: js_def)
  have b: "0x7B \<in> set (js ''@'' @ js ''{suremark_username}'')"
    by (simp add: js_def)
  show ?thesis
    using absent_unit_not_found [OF assms a] absent_unit_not_found [OF assms b]
    by (simp add: js_includes_def)
qed

lemma replace_first_at':
  "c \<notin> set a \<Longrightarrow> pat = c # rest \<Longrightarrow> replace_first (a @ pat @ b) pat rep = a @ rep @ b"
  using replace_first_at [of c a rest b rep] by simp

lemma fill_template:
  assumes t: "t = pre @ (js ''@'' @ js ''{suremark_username}'') @ mid @ js ''{dashboard_url}''"
    and pre: "0x40 \<notin> set pre" "0x7B \<notin> set pre" and mid: "0x7B \<notin> set mid"
    and h: "0x7B \<notin> set handle"
  shows "replace_first
           (replace_first t (js ''@'' @ js ''{suremark_username}'') (0x40 # handle))
           (js ''{dashboard_url}'') link
         = pre @ 0x40 # handle @ mid @ link"
proof -
  define P1 where "P1 = js ''@'' @ js ''{suremark_username}''"
  define P2 where "P2 = js ''{dashboard_url}''"
  have p1: "P1 = 0x40 # js ''{suremark_username}''"
    by (simp add: P1_def js_def)
  have p2: "P2 = 0x7B # js ''dashboard_url}''"
    by (simp add: P2_def js_def)
  have t': "t = pre @ P1 @ (mid @ P2)"
    using t by (simp add: P1_def P2_def)
  have s1: "replace_first t P1 (0x40 # handle) = pre @ (0x40 # handle) @ (mid @ P2)"
    unfolding t' using pre(1) p1 by (rule replace_first_at')
  have nb: "0x7B \<notin> set (pre @ (0x40 # handle) @ mid)"
    using pre(2) mid h by simp
  have s2: "replace_first ((pre @ (0x40 # handle) @ mid) @ P2 @ []) P2 link
            = (pre @ (0x40 # handle) @ mid) @ link @ []"
    using nb p2 by (rule replace_first_at')
  have "replace_first (replace_first t P1 (0x40 # handle)) P2 link
        = pre @ 0x40 # handle @ mid @ link"
    using s2 unfolding s1 by simp
  then show ?thesis
    by (simp only: P1_def P2_def)
qed

lemma default_shape:
  "DEFAULT_TEMPLATE
   = js ''This post is verified by '' @ (js ''@'' @ js ''{suremark_username}'')
     @ (js '' using SureMark Digital. '' @ [0x0A]
        @ js ''Check the SureMark dashboard for more recent posts: '')
     @ js ''{dashboard_url}''"
  by (simp add: DEFAULT_TEMPLATE_def js_def)

lemma template_for_cases:
  "template_for p \<in> set (DEFAULT_TEMPLATE # map snd PLATFORM_SPECIFIC)"
proof (cases "map_of PLATFORM_SPECIFIC p")
  case None
  then show ?thesis by (simp add: template_for_def)
next
  case (Some t)
  then have "(p, t) \<in> set PLATFORM_SPECIFIC" by (rule map_of_SomeD)
  then have "t \<in> snd ` set PLATFORM_SPECIFIC" by force
  with Some show ?thesis by (simp add: template_for_def)
qed

lemma shape_twitter:
  "PLATFORM_SPECIFIC_twitter
   = js ''This post is verified by '' @ (js ''@'' @ js ''{suremark_username}'')
     @ (js '' using SureMark Digital. '' @ [0x0A]
        @ js ''Check the SureMark dashboard for more recent posts: '')
     @ js ''{dashboard_url}''"
  by (simp add: PLATFORM_SPECIFIC_twitter_def js_def)

lemma shape_instagram:
  "PLATFORM_SPECIFIC_instagram
   = ([0xD83D, 0xDCF8] @ js '' This Instagram post is verified by '')
     @ (js ''@'' @ js ''{suremark_username}'')
     @ (js '' using SureMark Digital.'' @ [0x0A] @ js ''Check more verified content: '')
     @ js ''{dashboard_url}''"
  by (simp add: PLATFORM_SPECIFIC_instagram_def js_def)

lemma shape_youtube:
  "PLATFORM_SPECIFIC_youtube
   = ([0xD83C, 0xDFA5] @ js '' This YouTube video is verified by '')
     @ (js ''@'' @ js ''{suremark_username}'')
     @ (js '' using SureMark Digital.'' @ [0x0A] @ js ''Check more verified content: '')
     @ js ''{dashboard_url}''"
  by (simp add: PLATFORM_SPECIFIC_youtube_def js_def)

lemma shape_website:
  "PLATFORM_SPECIFIC_website
   = ([0xD83C, 0xDF10] @ js '' This content is verified by '')
     @ (js ''@'' @ js ''{suremark_username}'')
     @ (js '' using SureMark Digital.'' @ [0x0A] @ js ''Check more verified content: '')
     @ js ''{dashboard_url}''"
  by (simp add: PLATFORM_SPECIFIC_website_def js_def)

lemma shape_article:
  "PLATFORM_SPECIFIC_article
   = ([0xD83D, 0xDCF0] @ js '' This article is verified by '')
     @ (js ''@'' @ js ''{suremark_username}'')
     @ (js '' using SureMark Digital.'' @ [0x0A] @ js ''Check more verified content: '')
     @ js ''{dashboard_url}''"
  by (simp add: PLATFORM_SPECIFIC_article_def js_def)

lemma shape_parts:
  "0x40 \<notin> set (js ''This post is verified by '')"
  "0x7B \<notin> set (js ''This post is verified by '')"
  "0x40 \<notin> set ([0xD83D, 0xDCF8] @ js '' This Instagram post is verified by '')"
  "0x7B \<notin> set ([0xD83D, 0xDCF8] @ js '' This Instagram post is verified by '')"
  "0x40 \<notin> set ([0xD83C, 0xDFA5] @ js '' This YouTube video is verified by '')"
  "0x7B \<notin> set ([0xD83C, 0xDFA5] @ js '' This YouTube video is verified by '')"
  "0x40 \<notin> set ([0xD83C, 0xDF10] @ js '' This content is verified by '')"
  "0x7B \<notin> set ([0xD83C, 0xDF10] @ js '' This content is verified by '')"
  "0x40 \<notin> set ([0xD83D, 0xDCF0] @ js '' This article is verified by '')"
  "0x7B \<notin> set ([0xD83D, 0xDCF0] @ js '' This article is verified by '')"
  "0x7B \<notin> set (js '' using SureMark Digital. '' @ [0x0A]
                  @ js ''Check the SureMark dashboard for more recent posts: '')"
  "0x7B \<notin> set (js '' using SureMark Digital.'' @ [0x0A]
                  @ js ''Check more verified content: '')"
  by (simp_all add: js_def)

lemma template_shape:
  assumes "t \<in> set (DEFAULT_TEMPLATE # map snd PLATFORM_SPECIFIC)"
  shows "\<exists>pre mid. t = pre @ (js ''@'' @ js ''{suremark_username}'') @ mid
                        @ js ''{dashboard_url}''
           \<and> 0x40 \<notin> set pre \<and> 0x7B \<notin> set pre \<and> 0x7B \<notin> set mid"
proof -
  from assms consider "t = DEFAULT_TEMPLATE" | "t = PLATFORM_SPECIFIC_twitter"
    | "t = PLATFORM_SPECIFIC_instagram" | "t = PLATFORM_SPECIFIC_youtube"
    | "t = PLATFORM_SPECIFIC_website" | "t = PLATFORM_SPECIFIC_article"
    by (auto simp: PLATFORM_SPECIFIC_def)
  then show ?thesis
  proof cases
    case 1
    with default_shape shape_parts(1,2,11) show ?thesis by blast
  next
    case 2
    with shape_twitter shape_parts(1,2,11) show ?thesis by blast
  next
    case 3
    with shape_instagram shape_parts(3,4,12) show ?thesis by blast
  next
    case 4
    with shape_youtube shape_parts(5,6,12) show ?thesis by blast
  next
    case 5
    with shape_website shape_parts(7,8,12) show ?thesis by blast
  next
    case 6
    with shape_article shape_parts(9,10,12) show ?thesis by blast
  qed
qed

text \<open>
  C6, as the claim states it, fails: a handle that is itself the dashboard placeholder
  takes the one replacement of that placeholder, and the placeholder of the template
  stays in the output.
\<close>

theorem compose_keeps_placeholder:
  "generateVerificationMessage (js ''twitter'') (js ''{dashboard_url}'')
     (js ''https://d.example'') None
   = Inr (js ''This post is verified by @https://d.example using SureMark Digital. '' @ [0x0A]
          @ js ''Check the SureMark dashboard for more recent posts: {dashboard_url}'')
   \<and> js_includes
       (js ''This post is verified by @https://d.example using SureMark Digital. '' @ [0x0A]
        @ js ''Check the SureMark dashboard for more recent posts: {dashboard_url}'')
       (js ''{dashboard_url}'')"
  by (simp add: model_defs)

text \<open>
  A dollar pattern in the handle is expanded by \<^verbatim>\<open>replace\<close>: here the matched placeholder
  comes back into the output.
\<close>

lemma compose_dollar_pattern:
  "generateVerificationMessage (js ''twitter'') (js ''$&'') (js ''https://d.example'') None
   = Inr (js ''This post is verified by @@'' @ js ''{suremark_username} using SureMark Digital. ''
          @ [0x0A]
          @ js ''Check the SureMark dashboard for more recent posts: https://d.example'')"
  by (simp add: model_defs)

text \<open>
  C6, amended. For a platform string that is not the name of a property inherited from
  \<^verbatim>\<open>Object.prototype\<close>, and a handle and a link that contain neither a dollar sign nor an
  opening brace, composing without an override takes the template of the platform, or
  the default one when the platform has none, and replaces the first occurrence of the
  handle placeholder by the at-sign and the handle and the first occurrence of the link
  placeholder by the link. The output is the template with exactly these two pieces
  exchanged, and contains neither placeholder.
\<close>

theorem compose_substitutes:
  assumes "p \<notin> set OBJECT_PROTOTYPE_KEYS"
    and "0x24 \<notin> set handle" and "0x24 \<notin> set link"
    and "0x7B \<notin> set handle" and "0x7B \<notin> set link"
  shows "\<exists>out pre mid.
           generateVerificationMessage p handle link None = Inr out
           \<and> out = replace_first
                     (replace_first (template_for p) (js ''@'' @ js ''{suremark_username}'')
                        (0x40 # handle))
                     (js ''{dashboard_url}'') link
           \<and> template_for p = pre @ (js ''@'' @ js ''{suremark_username}'') @ mid
               @ js ''{dashboard_url}''
           \<and> out = pre @ 0x40 # handle @ mid @ link
           \<and> \<not> js_includes out (js ''{dashboard_url}'')
           \<and> \<not> js_includes out (js ''@'' @ js ''{suremark_username}'')"
proof -
  let ?out = "replace_first
                (replace_first (template_for p) (js ''@'' @ js ''{suremark_username}'')
                   (0x40 # handle))
                (js ''{dashboard_url}'') link"
  have d: "0x24 \<notin> set (0x40 # handle)"
    using assms(2) by simp
  have gen: "generateVerificationMessage p handle link None = Inr ?out"
    using assms(1) js_replace_plain [OF d] js_replace_plain [OF assms(3)]
    by (simp add: generateVerificationMessage_def template_for_def truthy_def
        split: option.splits)
  from template_shape [OF template_for_cases [of p]] obtain pre mid where
    shape: "template_for p = pre @ (js ''@'' @ js ''{suremark_username}'') @ mid
              @ js ''{dashboard_url}''"
    and ok: "0x40 \<notin> set pre" "0x7B \<notin> set pre" "0x7B \<notin> set mid"
    by blast
  have out: "?out = pre @ 0x40 # handle @ mid @ link"
    using fill_template [OF shape ok assms(4)] .
  have "0x7B \<notin> set ?out"
    unfolding out using ok assms(4,5) by simp
  from no_brace_no_placeholder [OF this] gen shape out show ?thesis
    by blast
qed

theorem compose_substitutes_witness:
  "js ''instagram'' \<notin> set OBJECT_PROTOTYPE_KEYS
   \<and> 0x24 \<notin> set (js ''alice'') \<and> 0x24 \<notin> set (js ''https://d.example'')
   \<and> 0x7B \<notin> set (js ''alice'') \<and> 0x7B \<notin> set (js ''https://d.example'')
   \<and> generateVerificationMessage (js ''instagram'') (js ''alice'') (js ''https://d.example'') None
     = Inr ([0xD83D, 0xDCF8]
            @ js '' This Instagram post is verified by @alice using SureMark Digital.''
            @ [0x0A] @ js ''Check more verified content: https://d.example'')
   \<and> \<not> js_includes
         ([0xD83D, 0xDCF8]
          @ js '' This Instagram post is verified by @alice using SureMark Digital.''
          @ [0x0A] @ js ''Check more verified content: https://d.example'')
         (js ''{dashboard_url}'')
   \<and> \<not> js_includes
         ([0xD83D, 0xDCF8]
          @ js '' This Instagram post is verified by @alice using SureMark Digital.''
          @ [0x0A] @ js ''Check more verified content: https://d.example'')
         (js ''@'' @ js ''{suremark_username}'')"
proof -
  have k: "js ''instagram'' \<notin> set OBJECT_PROTOTYPE_KEYS"
    by (simp add: OBJECT_PROTOTYPE_KEYS_def js_def)
  have h: "0x24 \<notin> set (js ''alice'')" "0x24 \<notin> set (js ''https://d.example'')"
    "0x7B \<notin> set (js ''alice'')" "0x7B \<notin> set (js ''https://d.example'')"
    by (simp_all add: js_def)
  have e: "generateVerificationMessage (js ''instagram'') (js ''alice'')
             (js ''https://d.example'') None
           = Inr ([0xD83D, 0xDCF8]
                  @ js '' This Instagram post is verified by @alice using SureMark Digital.''
                  @ [0x0A] @ js ''Check more verified content: https://d.example'')"
    by (simp add: model_defs)
  from compose_substitutes [OF k h] e k h show ?thesis
    by auto
qed


section \<open>The batch driver\<close>

text \<open>
  C9. For every state of the loop, the counter that the loop body increments for a URL
  is the one that belongs to the outcome of the single-URL run on the same world
  (\<open>tally\<close>), and the body leaves the store as that run does; the loop goes through the
  whole list, so the three counters add up to the number of URLs. For every list the
  batch is the left-to-right iteration over its URLs of that step: run the single-URL
  pipeline on the world the previous URLs left, increment the counter of the outcome, go
  on with the next URL. In particular, on an
  initialized handle, for two distinct non-empty URLs that parse around a string that does
  not, none of them stored yet, with inserts that do not fault and, unless it is a dry
  run, an API that accepts every tweet and messages within the length limit, the batch
  ends with two processed, one failed and none skipped, and the store has gained the
  records of the two URLs.
\<close>

theorem batch_counts:
  "fst (batchItem env n username delay dryRun u (c, w))
     = tally (fst (process env w u username None dryRun)) c
   \<and> documents (snd (batchItem env n username delay dryRun u (c, w)))
     = documents (snd (process env w u username None dryRun))
   \<and> processed (fst (runBatch env w urls username delay dryRun))
     + skipped (fst (runBatch env w urls username delay dryRun))
     + failed (fst (runBatch env w urls username delay dryRun)) = length urls
   \<and> runBatch env w urls username delay dryRun
     = foldl (\<lambda>cw u. item_step env (length urls) username delay dryRun u cw)
         (\<lparr>processed = 0, skipped = 0, failed = 0\<rparr>, w) urls
   \<and> (initialized w \<and> parseUrl env u1 = Some x1 \<and> parseUrl env u2 = None
      \<and> parseUrl env u3 = Some x3 \<and> u1 \<noteq> [] \<and> u3 \<noteq> [] \<and> u1 \<noteq> u3
      \<and> u1 \<notin> ProcessedPost.url ` set (documents w)
      \<and> u2 \<notin> ProcessedPost.url ` set (documents w)
      \<and> u3 \<notin> ProcessedPost.url ` set (documents w)
      \<and> (\<forall>h d. insertOneFails env h d = None)
      \<and> (dryRun \<or>
          ((\<forall>h msg r. \<exists>i. v2tweet env h msg r = TweetData i) \<and>
           (\<forall>p \<in> set PLATFORM_TAGS. \<forall>msg.
              generateVerificationMessage p (js_or_str username (js ''suremark_user''))
                (SURMARK_DASHBOARD_URL env) None = Inr msg
              \<longrightarrow> length msg \<le> MAX_TWEET_LENGTH)))
      \<longrightarrow> (\<exists>w' d1 d3.
            runBatch env w [u1, u2, u3] username delay dryRun
            = (\<lparr>processed = 2, skipped = 0, failed = 1\<rparr>, w')
            \<and> documents w' = documents w @ [d1, d3]
            \<and> ProcessedPost.url d1 = u1 \<and> ProcessedPost.url d3 = u3
            \<and> ProcessedPost.success d1 = Some (\<not> dryRun)
            \<and> ProcessedPost.success d3 = Some (\<not> dryRun)))"
proof (intro conjI impI)
  show "fst (batchItem env n username delay dryRun u (c, w))
        = tally (fst (process env w u username None dryRun)) c"
    by (rule batchItem_tally)
  show "documents (snd (batchItem env n username delay dryRun u (c, w)))
        = documents (snd (process env w u username None dryRun))"
    by (rule batchItem_documents)
  show "processed (fst (runBatch env w urls username delay dryRun))
     + skipped (fst (runBatch env w urls username delay dryRun))
     + failed (fst (runBatch env w urls username delay dryRun)) = length urls"
    using batchLoop_total
      [of env "length urls" username delay dryRun urls
        "(\<lparr>processed = 0, skipped = 0, failed = 0\<rparr>, w)"]
    by (simp add: runBatch_def)
  show "runBatch env w urls username delay dryRun
        = foldl (\<lambda>cw u. item_step env (length urls) username delay dryRun u cw)
            (\<lparr>processed = 0, skipped = 0, failed = 0\<rparr>, w) urls"
    by (rule runBatch_in_order)
next
  assume h: "initialized w \<and> parseUrl env u1 = Some x1 \<and> parseUrl env u2 = None
      \<and> parseUrl env u3 = Some x3 \<and> u1 \<noteq> [] \<and> u3 \<noteq> [] \<and> u1 \<noteq> u3
      \<and> u1 \<notin> ProcessedPost.url ` set (documents w)
      \<and> u2 \<notin> ProcessedPost.url ` set (documents w)
      \<and> u3 \<notin> ProcessedPost.url ` set (documents w)
      \<and> (\<forall>h d. insertOneFails env h d = None)
      \<and> (dryRun \<or>
          ((\<forall>h msg r. \<exists>i. v2tweet env h msg r = TweetData i) \<and>
           (\<forall>p \<in> set PLATFORM_TAGS. \<forall>msg.
              generateVerificationMessage p (js_or_str username (js ''suremark_user''))
                (SURMARK_DASHBOARD_URL env) None = Inr msg
              \<longrightarrow> length msg \<le> MAX_TWEET_LENGTH)))"
  then have init: "initialized w" and p1: "parseUrl env u1 = Some x1"
    and p2: "parseUrl env u2 = None" and p3: "parseUrl env u3 = Some x3"
    and n1: "u1 \<noteq> []" and n3: "u3 \<noteq> []" and d13: "u1 \<noteq> u3"
    and f1: "u1 \<notin> ProcessedPost.url ` set (documents w)"
    and f2: "u2 \<notin> ProcessedPost.url ` set (documents w)"
    and f3: "u3 \<notin> ProcessedPost.url ` set (documents w)"
    and nofault: "\<forall>h d. insertOneFails env h d = None"
    and live: "dryRun \<or>
          ((\<forall>h msg r. \<exists>i. v2tweet env h msg r = TweetData i) \<and>
           (\<forall>p \<in> set PLATFORM_TAGS. \<forall>msg.
              generateVerificationMessage p (js_or_str username (js ''suremark_user''))
                (SURMARK_DASHBOARD_URL env) None = Inr msg
              \<longrightarrow> length msg \<le> MAX_TWEET_LENGTH))"
    by blast+
  let ?c0 = "\<lparr>processed = 0, skipped = 0, failed = 0\<rparr>"
  from batchItem_ok [OF init p1 n1 nofault f1 live, of 3 delay ?c0]
  obtain w1 d1 where
    s1: "batchItem env 3 username delay dryRun u1 (?c0, w)
         = (?c0\<lparr>processed := processed ?c0 + 1\<rparr>, w1)" and
    i1: "initialized w1" and dc1: "documents w1 = documents w @ [d1]" and
    u1: "ProcessedPost.url d1 = u1" and sc1: "ProcessedPost.success d1 = Some (\<not> dryRun)"
    by blast
  have u12: "u2 \<noteq> u1" using p1 p2 by auto
  have nh2: "\<not> holds_success w1 u2"
    using f2 dc1 u1 u12 holds_success_no_docs [of w1 u2] by auto
  let ?c1 = "?c0\<lparr>processed := processed ?c0 + 1\<rparr>"
  from batchItem_unparsable [OF p2 i1 nh2, of 3 username delay dryRun ?c1]
  obtain w2 where
    s2: "batchItem env 3 username delay dryRun u2 (?c1, w1)
         = (?c1\<lparr>failed := failed ?c1 + 1\<rparr>, w2)" and
    i2: "initialized w2" and dc2: "documents w2 = documents w1"
    by blast
  have f3': "u3 \<notin> ProcessedPost.url ` set (documents w2)"
    using f3 dc2 dc1 u1 d13 by auto
  let ?c2 = "?c1\<lparr>failed := failed ?c1 + 1\<rparr>"
  from batchItem_ok [OF i2 p3 n3 nofault f3' live, of 3 delay ?c2]
  obtain w3 d3 where
    s3: "batchItem env 3 username delay dryRun u3 (?c2, w2)
         = (?c2\<lparr>processed := processed ?c2 + 1\<rparr>, w3)" and
    dc3: "documents w3 = documents w2 @ [d3]" and
    u3: "ProcessedPost.url d3 = u3" and sc3: "ProcessedPost.success d3 = Some (\<not> dryRun)"
    by blast
  have len: "length [u1, u2, u3] = 3"
    by simp
  have "runBatch env w [u1, u2, u3] username delay dryRun
        = (?c2\<lparr>processed := processed ?c2 + 1\<rparr>, w3)"
    by (simp only: runBatch_def len batchLoop.simps s1 s2 s3)
  then have "runBatch env w [u1, u2, u3] username delay dryRun
        = (\<lparr>processed = 2, skipped = 0, failed = 1\<rparr>, w3)"
    by simp
  moreover have "documents w3 = documents w @ [d1, d3]"
    using dc1 dc2 dc3 by simp
  ultimately show "\<exists>w' d1 d3.
            runBatch env w [u1, u2, u3] username delay dryRun
            = (\<lparr>processed = 2, skipped = 0, failed = 1\<rparr>, w')
            \<and> documents w' = documents w @ [d1, d3]
            \<and> ProcessedPost.url d1 = u1 \<and> ProcessedPost.url d3 = u3
            \<and> ProcessedPost.success d1 = Some (\<not> dryRun)
            \<and> ProcessedPost.success d3 = Some (\<not> dryRun)"
    using u1 u3 sc1 sc3 by blast
qed

theorem batch_counts_witness:
  "initialized fresh_world
   \<and> parseUrl sample_env (js ''https://twitter.com/a/status/7'')
     = Some \<lparr>hostname = js ''twitter.com'', pathname = js ''/a/status/7''\<rparr>
   \<and> parseUrl sample_env (js ''not a url'') = None
   \<and> parseUrl sample_env (js ''https://twitter.com/b/status/8'')
     = Some \<lparr>hostname = js ''twitter.com'', pathname = js ''/b/status/8''\<rparr>
   \<and> (\<forall>h d. insertOneFails sample_env h d = None)
   \<and> (\<forall>h msg r. \<exists>i. v2tweet sample_env h msg r = TweetData i)
   \<and> (\<exists>w' d1 d3.
         runBatch sample_env fresh_world
           [js ''https://twitter.com/a/status/7'', js ''not a url'',
            js ''https://twitter.com/b/status/8''] None 30 False
         = (\<lparr>processed = 2, skipped = 0, failed = 1\<rparr>, w')
         \<and> documents w' = [d1, d3]
         \<and> ProcessedPost.url d1 = js ''https://twitter.com/a/status/7''
         \<and> ProcessedPost.url d3 = js ''https://twitter.com/b/status/8''
         \<and> ProcessedPost.success d1 = Some True
         \<and> ProcessedPost.success d3 = Some True)
   \<and> fst (runBatch sample_env fresh_world [js ''https://twitter.com/a/status/7''] None 30 True)
     = \<lparr>processed = 1, skipped = 0, failed = 0\<rparr>"
proof -
  let ?u1 = "js ''https://twitter.com/a/status/7''"
  let ?u2 = "js ''not a url''"
  let ?u3 = "js ''https://twitter.com/b/status/8''"
  have i: "initialized fresh_world"
    by (simp add: fresh_world_def)
  have p1: "parseUrl sample_env ?u1
            = Some \<lparr>hostname = js ''twitter.com'', pathname = js ''/a/status/7''\<rparr>"
    by (simp add: sample_env_def sample_parse_def js_def)
  have p2: "parseUrl sample_env ?u2 = None"
    by (simp add: sample_env_def sample_parse_def js_def)
  have p3: "parseUrl sample_env ?u3
            = Some \<lparr>hostname = js ''twitter.com'', pathname = js ''/b/status/8''\<rparr>"
    by (simp add: sample_env_def sample_parse_def js_def)
  have ne: "?u1 \<noteq> []" "?u3 \<noteq> []" "?u1 \<noteq> ?u3"
    by (simp_all add: js_def)
  have fr: "?u1 \<notin> ProcessedPost.url ` set (documents fresh_world)"
    "?u2 \<notin> ProcessedPost.url ` set (documents fresh_world)"
    "?u3 \<notin> ProcessedPost.url ` set (documents fresh_world)"
    by (simp_all add: fresh_world_def)
  have nf: "\<forall>h d. insertOneFails sample_env h d = None"
    by (simp add: sample_env_def)
  have api: "\<forall>h msg r. \<exists>i. v2tweet sample_env h msg r = TweetData i"
    by (simp add: sample_env_def)
  have short: "\<forall>p \<in> set PLATFORM_TAGS. \<forall>msg.
      generateVerificationMessage p (js_or_str None (js ''suremark_user''))
        (SURMARK_DASHBOARD_URL sample_env) None = Inr msg
      \<longrightarrow> length msg \<le> MAX_TWEET_LENGTH"
    by (simp add: PLATFORM_TAGS_def model_defs sample_env_def)
  have d: "documents fresh_world = []"
    by (simp add: fresh_world_def)
  from batch_counts
    [of sample_env _ None 30 False _ _ fresh_world _ ?u1 _ ?u2 ?u3,
      THEN conjunct2, THEN conjunct2, THEN conjunct2, THEN conjunct2]
    i p1 p2 p3 ne fr nf api short d
  have three: "\<exists>w' d1 d3.
         runBatch sample_env fresh_world [?u1, ?u2, ?u3] None 30 False
         = (\<lparr>processed = 2, skipped = 0, failed = 1\<rparr>, w')
         \<and> documents w' = [d1, d3]
         \<and> ProcessedPost.url d1 = ?u1 \<and> ProcessedPost.url d3 = ?u3
         \<and> ProcessedPost.success d1 = Some True \<and> ProcessedPost.success d3 = Some True"
    by simp
  note three
  moreover have "fst (runBatch sample_env fresh_world [?u1] None 30 True)
                 = \<lparr>processed = 1, skipped = 0, failed = 0\<rparr>"
  proof -
    have one: "runBatch sample_env fresh_world [?u1] None 30 True
          = item_step sample_env (length [?u1]) None 30 True ?u1
              (\<lparr>processed = 0, skipped = 0, failed = 0\<rparr>, fresh_world)"
      using batch_counts [of sample_env _ None 30 True _ _ fresh_world "[?u1]",
          THEN conjunct2, THEN conjunct2, THEN conjunct2, THEN conjunct1]
      by simp
    have "\<exists>msg. fst (process sample_env fresh_world ?u1 None None True) = DryRunRecorded msg"
      by (simp add: model_defs sample_defs)
    then show ?thesis
      unfolding one by (auto simp: item_step_def tally_def split: prod.splits)
  qed
  ultimately show ?thesis
    using i p1 p2 p3 nf api by blast
qed

end
